theory Spec2Isabelle
  imports Main
begin

section \<open>The configuration store of rwgame (GameConfig.cpp)\<close>

text \<open>
  The development follows \<^verbatim>\<open>src/rwgame/GameConfig.cpp\<close>: the settings record, the three
  codecs (\<^verbatim>\<open>StringTranslator\<close>, \<^verbatim>\<open>BoolTranslator\<close>, \<^verbatim>\<open>IntTranslator\<close>), the generic
  transfer \<^verbatim>\<open>parseConfig\<close> with its local closure \<^verbatim>\<open>read_config\<close>, and the three
  entry points built on it (the constructor, \<^verbatim>\<open>saveConfig\<close>, \<^verbatim>\<open>getDefaultINIString\<close>).

  The file calls into two libraries. Their behaviour is written out here as far as the
  file depends on it: \<^verbatim>\<open>std::string\<close> searching and \<^verbatim>\<open>std::stoi\<close>, and the property tree
  of Boost with its INI reader and writer.

  The macros \<^verbatim>\<open>RW_MESSAGE\<close> and \<^verbatim>\<open>RW_ERROR\<close> come from \<^verbatim>\<open>rw/defines.hpp\<close>, which is not
  among the sources. They report a message for diagnostics; the code after each of them
  runs on, so they have no part in the values computed here.
\<close>

subsection \<open>Characters and the std::string operations used\<close>

definition nl :: char where
  "nl = CHR 0x0A"

text \<open>\<^verbatim>\<open>std::isspace\<close> in the classic locale: space, \<^verbatim>\<open>\t \n \v \f \r\<close>.\<close>

definition isspace :: "char \<Rightarrow> bool" where
  "isspace c = (c \<in> set [CHR 0x20, CHR 0x09, CHR 0x0A, CHR 0x0B, CHR 0x0C, CHR 0x0D])"

definition isdigit :: "char \<Rightarrow> bool" where
  "isdigit c = (c \<in> set ''0123456789'')"

text \<open>
  \<^verbatim>\<open>str.find_first_of(cs)\<close>: the index of the first character of \<open>str\<close> that occurs in
  \<open>cs\<close>; \<open>None\<close> stands for \<^verbatim>\<open>npos\<close>.
\<close>

fun find_first_of :: "string \<Rightarrow> string \<Rightarrow> nat option" where
  "find_first_of [] cs = None"
| "find_first_of (x # xs) cs =
     (if x \<in> set cs then Some 0 else map_option Suc (find_first_of xs cs))"

text \<open>
  \<^verbatim>\<open>str.find_last_not_of(cs)\<close>: the index of the last character of \<open>str\<close> that does not
  occur in \<open>cs\<close>; \<open>None\<close> stands for \<^verbatim>\<open>npos\<close>.
\<close>

fun find_last_not_of :: "string \<Rightarrow> string \<Rightarrow> nat option" where
  "find_last_not_of [] cs = None"
| "find_last_not_of (x # xs) cs =
     (case find_last_not_of xs cs of
        Some i \<Rightarrow> Some (Suc i)
      | None \<Rightarrow> if x \<in> set cs then None else Some 0)"

text \<open>
  \<^verbatim>\<open>std::string(str, 0, n)\<close>: the first \<open>n\<close> characters of \<open>str\<close>, all of it when \<open>n\<close> is
  \<^verbatim>\<open>npos\<close> (the count is clipped to the size).
\<close>

definition substr0 :: "string \<Rightarrow> nat option \<Rightarrow> string" where
  "substr0 str n = (case n of None \<Rightarrow> str | Some k \<Rightarrow> take k str)"

text \<open>
  \<^verbatim>\<open>s.erase(p + 1)\<close> for \<open>p\<close> the result of a search: everything from index \<open>p + 1\<close> on is
  removed. \<^verbatim>\<open>npos\<close> is the largest \<^verbatim>\<open>size_t\<close>, so \<^verbatim>\<open>npos + 1\<close> wraps to 0 and the whole
  string is erased. The index never exceeds the size, so \<^verbatim>\<open>erase\<close> does not throw.
\<close>

definition erase_after :: "string \<Rightarrow> nat option \<Rightarrow> string" where
  "erase_after s p = (case p of None \<Rightarrow> take 0 s | Some i \<Rightarrow> take (Suc i) s)"

subsection \<open>stripComments\<close>

definition stripComments :: "string \<Rightarrow> string" where
  "stripComments str =
     (let s = substr0 str (find_first_of str '';#'')
      in erase_after s (find_last_not_of s [CHR 0x20, CHR 0x0A, CHR 0x0D, CHR 0x09]))"

text \<open>
  The string codec in the words of the specification: the part before the first
  \<^verbatim>\<open>;\<close> or \<^verbatim>\<open>#\<close>, without its trailing blanks.
\<close>

definition is_comment_char :: "char \<Rightarrow> bool" where
  "is_comment_char c = (c = CHR '';'' \<or> c = CHR ''#'')"

definition is_trailing_ws :: "char \<Rightarrow> bool" where
  "is_trailing_ws c = (c = CHR 0x20 \<or> c = CHR 0x0A \<or> c = CHR 0x0D \<or> c = CHR 0x09)"

definition before_comment :: "string \<Rightarrow> string" where
  "before_comment str = takeWhile (\<lambda>c. \<not> is_comment_char c) str"

definition drop_trailing_ws :: "string \<Rightarrow> string" where
  "drop_trailing_ws s = rev (dropWhile is_trailing_ws (rev s))"

definition strip_spec :: "string \<Rightarrow> string" where
  "strip_spec str = drop_trailing_ws (before_comment str)"

subsection \<open>std::stoi\<close>

text \<open>
  \<^verbatim>\<open>std::stoi(s)\<close> (base 10) skips leading white space, reads an optional sign and the
  longest run of decimal digits, and ignores what follows. With no digit it throws
  \<^verbatim>\<open>std::invalid_argument\<close>; with a value that does not fit \<^verbatim>\<open>int\<close> (32 bits) it throws
  \<^verbatim>\<open>std::out_of_range\<close>, whether or not the value fits the \<^verbatim>\<open>long\<close> of \<^verbatim>\<open>strtol\<close>.
\<close>

datatype stoi_result = Stoi_value int | Invalid_argument | Out_of_range

definition digit_val :: "char \<Rightarrow> int" where
  "digit_val c = int (of_char c) - 48"

definition digits_value :: "string \<Rightarrow> int" where
  "digits_value ds = foldl (\<lambda>a c. 10 * a + digit_val c) 0 ds"

definition INT_MIN :: int where
  "INT_MIN = - 2147483648"

definition INT_MAX :: int where
  "INT_MAX = 2147483647"

text \<open>The sign in front of the digits, and what follows it.\<close>

definition take_sign :: "string \<Rightarrow> bool \<times> string" where
  "take_sign s =
     (case s of
        [] \<Rightarrow> (False, [])
      | c # rest \<Rightarrow>
          if c = CHR ''-'' then (True, rest)
          else if c = CHR ''+'' then (False, rest)
          else (False, s))"

definition stoi :: "string \<Rightarrow> stoi_result" where
  "stoi s =
     (case take_sign (dropWhile isspace s) of
        (neg, s2) \<Rightarrow>
          (let ds = takeWhile isdigit s2
           in if ds = [] then Invalid_argument
              else let v = (if neg then - digits_value ds else digits_value ds)
                   in if v < INT_MIN \<or> INT_MAX < v then Out_of_range else Stoi_value v))"

subsection \<open>The property tree\<close>

text \<open>
  \<^verbatim>\<open>boost::property_tree::ptree\<close>: a node holds a data string and an ordered list of
  named children. Looking a name up (\<^verbatim>\<open>find\<close>) gives the first child of that name.
\<close>

datatype ptree = Ptree (data: string) (children: "(string \<times> ptree) list")

definition empty_ptree :: ptree where
  "empty_ptree = Ptree [] []"

text \<open>The exceptions that can leave a tree access or a codec.\<close>

datatype exn = Std_out_of_range | Ptree_bad_path | Ptree_bad_data

text \<open>The errors of the INI reader and writer (\<^verbatim>\<open>ini_parser_error\<close>), by message.\<close>

datatype ini_parser_error =
    Cannot_open_file
  | Unmatched_bracket
  | Duplicate_section_name
  | Equals_not_found
  | Key_expected
  | Duplicate_key_name
  | Data_on_root
  | Duplicate_key
  | Too_deep
  | Mixed_data_and_children

text \<open>A codec: \<^verbatim>\<open>get_value\<close> may decode, decline (\<open>None\<close>) or throw; \<^verbatim>\<open>put_value\<close> encodes.\<close>

record 'a translator =
  get_value :: "string \<Rightarrow> exn + 'a option"
  put_value :: "'a \<Rightarrow> string option"

text \<open>Splitting at a separator; the result always has a last piece, possibly empty.\<close>

fun split_on :: "char \<Rightarrow> string \<Rightarrow> string list" where
  "split_on c [] = [[]]"
| "split_on c (x # xs) =
     (if x = c then [] # split_on c xs
      else (case split_on c xs of
              [] \<Rightarrow> [[x]]
            | l # ls \<Rightarrow> (x # l) # ls))"

text \<open>
  A dotted path as its fragments, the way \<^verbatim>\<open>string_path::reduce\<close> consumes it: a separator
  at the very end starts no further fragment.
\<close>

definition fragments :: "string \<Rightarrow> string list" where
  "fragments key =
     (let ps = split_on (CHR ''.'') key in if last ps = [] then butlast ps else ps)"

text \<open>\<^verbatim>\<open>walk_path\<close>: follow the fragments down, \<open>None\<close> when a child is missing.\<close>

fun walk_path :: "ptree \<Rightarrow> string list \<Rightarrow> ptree option" where
  "walk_path t [] = Some t"
| "walk_path t (k # p) =
     (case map_of (children t) k of
        None \<Rightarrow> None
      | Some c \<Rightarrow> walk_path c p)"

text \<open>Change the first child called \<open>k\<close>.\<close>

fun update_child ::
  "string \<Rightarrow> (ptree \<Rightarrow> ptree) \<Rightarrow> (string \<times> ptree) list \<Rightarrow> (string \<times> ptree) list" where
  "update_child k f [] = []"
| "update_child k f ((k', c) # cs) =
     (if k' = k then (k', f c) # cs else (k', c) # update_child k f cs)"

text \<open>
  \<^verbatim>\<open>put_child(path, value)\<close>: \<^verbatim>\<open>force_path\<close> goes down the path and creates the nodes
  that are missing; the last fragment's child is replaced when it exists and appended
  otherwise. The path is never empty here (the library asserts it).
\<close>

fun put_child :: "ptree \<Rightarrow> string list \<Rightarrow> ptree \<Rightarrow> ptree" where
  "put_child t [] v = t"
| "put_child t [k] v =
     (case map_of (children t) k of
        Some _ \<Rightarrow> Ptree (data t) (update_child k (\<lambda>_. v) (children t))
      | None \<Rightarrow> Ptree (data t) (children t @ [(k, v)]))"
| "put_child t (k # p) v =
     (case map_of (children t) k of
        Some _ \<Rightarrow> Ptree (data t) (update_child k (\<lambda>c. put_child c p v) (children t))
      | None \<Rightarrow> Ptree (data t) (children t @ [(k, put_child (Ptree [] []) p v)]))"

text \<open>\<^verbatim>\<open>put_value\<close> on the node a path leads to.\<close>

fun set_data_at :: "ptree \<Rightarrow> string list \<Rightarrow> string \<Rightarrow> ptree" where
  "set_data_at t [] d = Ptree d (children t)"
| "set_data_at t (k # p) d =
     Ptree (data t) (update_child k (\<lambda>c. set_data_at c p d) (children t))"

text \<open>
  \<^verbatim>\<open>tree.get<T>(key, translator)\<close>: \<^verbatim>\<open>ptree_bad_path\<close> when the path leads nowhere,
  \<^verbatim>\<open>ptree_bad_data\<close> when the codec declines; what the codec throws passes through.
\<close>

definition ptree_get :: "ptree \<Rightarrow> string \<Rightarrow> 'a translator \<Rightarrow> exn + 'a" where
  "ptree_get t key tr =
     (case walk_path t (fragments key) of
        None \<Rightarrow> Inl Ptree_bad_path
      | Some c \<Rightarrow>
          (case get_value tr (data c) of
             Inl e \<Rightarrow> Inl e
           | Inr None \<Rightarrow> Inl Ptree_bad_data
           | Inr (Some v) \<Rightarrow> Inr v))"

text \<open>
  \<^verbatim>\<open>tree.put(key, value, translator)\<close>: the node at the path gets the encoded value as
  its data; a missing node is created first.
\<close>

definition ptree_put :: "ptree \<Rightarrow> string \<Rightarrow> 'a \<Rightarrow> 'a translator \<Rightarrow> exn + ptree" where
  "ptree_put t key v tr =
     (case put_value tr v of
        None \<Rightarrow> Inl Ptree_bad_data
      | Some d \<Rightarrow>
          (case walk_path t (fragments key) of
             Some _ \<Rightarrow> Inr (set_data_at t (fragments key) d)
           | None \<Rightarrow> Inr (put_child t (fragments key) (Ptree d []))))"

subsection \<open>The INI reader\<close>

text \<open>\<^verbatim>\<open>property_tree::detail::trim\<close>: white space off both ends.\<close>

definition trim :: "string \<Rightarrow> string" where
  "trim s = rev (dropWhile isspace (rev (dropWhile isspace s)))"

fun find_char :: "string \<Rightarrow> char \<Rightarrow> nat option" where
  "find_char [] c = None"
| "find_char (x # xs) c = (if x = c then Some 0 else map_option Suc (find_char xs c))"

text \<open>
  The reader's state: the children of the local tree that are complete, and the section
  being filled (its name and its keys so far), which the source reaches through a pointer
  to the last child.
\<close>

type_synonym ini_state = "(string \<times> ptree) list \<times> (string \<times> (string \<times> ptree) list) option"

text \<open>An empty section is dropped again when the next one starts and at the end.\<close>

definition close_section :: "ini_state \<Rightarrow> (string \<times> ptree) list" where
  "close_section st =
     (case snd st of
        None \<Rightarrow> fst st
      | Some (name, keys) \<Rightarrow> if keys = [] then fst st else fst st @ [(name, Ptree [] keys)])"

definition read_ini_line :: "string \<Rightarrow> ini_state \<Rightarrow> ini_parser_error + ini_state" where
  "read_ini_line raw st =
     (let line = trim raw in
      if line = [] then Inr st
      else if hd line = CHR '';'' \<or> hd line = CHR ''#'' then Inr st
      else if hd line = CHR ''['' then
        (let local = close_section st in
         case find_char line (CHR '']'') of
           None \<Rightarrow> Inl Unmatched_bracket
         | Some e \<Rightarrow>
             (let key = trim (take (e - 1) (drop 1 line)) in
              if map_of local key \<noteq> None then Inl Duplicate_section_name
              else Inr (local, Some (key, []))))
      else
        (case find_char line (CHR ''='') of
           None \<Rightarrow> Inl Equals_not_found
         | Some eqpos \<Rightarrow>
             if eqpos = 0 then Inl Key_expected
             else
               (let key = trim (take eqpos line);
                    dat = trim (drop (Suc eqpos) line)
                in case snd st of
                     None \<Rightarrow>
                       if map_of (fst st) key \<noteq> None then Inl Duplicate_key_name
                       else Inr (fst st @ [(key, Ptree dat [])], None)
                   | Some (name, keys) \<Rightarrow>
                       if map_of keys key \<noteq> None then Inl Duplicate_key_name
                       else Inr (fst st, Some (name, keys @ [(key, Ptree dat [])])))))"

fun read_ini_lines :: "string list \<Rightarrow> ini_state \<Rightarrow> ini_parser_error + ini_state" where
  "read_ini_lines [] st = Inr st"
| "read_ini_lines (l # ls) st =
     (case read_ini_line l st of
        Inl e \<Rightarrow> Inl e
      | Inr st' \<Rightarrow> read_ini_lines ls st')"

text \<open>
  \<^verbatim>\<open>read_ini(stream, tree)\<close> on a stream that is open on \<open>text\<close>: the lines are the pieces
  between line feeds (\<^verbatim>\<open>std::getline\<close>), the last one included.
\<close>

definition read_ini :: "string \<Rightarrow> ini_parser_error + ptree" where
  "read_ini text =
     (case read_ini_lines (split_on nl text) ([], None) of
        Inl e \<Rightarrow> Inl e
      | Inr st \<Rightarrow> Inr (Ptree [] (close_section st)))"

subsection \<open>The INI writer\<close>

text \<open>
  The writer returns the text it has put on the stream and the error it stopped with, if
  any. \<^verbatim>\<open>check_dupes\<close> fails when two children of a node share a name.
\<close>

definition check_dupes :: "ptree \<Rightarrow> bool" where
  "check_dupes pt = (\<not> distinct (map fst (children pt)))"

fun write_keys ::
  "(string \<times> ptree) list \<Rightarrow> bool \<Rightarrow> string \<Rightarrow> string \<times> ini_parser_error option" where
  "write_keys [] throw_on_children out = (out, None)"
| "write_keys ((k, c) # rest) throw_on_children out =
     (if children c \<noteq> [] then
        (if throw_on_children then (out, Some Too_deep)
         else write_keys rest throw_on_children out)
      else write_keys rest throw_on_children (out @ k @ ''='' @ data c @ [nl]))"

fun write_sections ::
  "(string \<times> ptree) list \<Rightarrow> string \<Rightarrow> string \<times> ini_parser_error option" where
  "write_sections [] out = (out, None)"
| "write_sections ((k, c) # rest) out =
     (if children c \<noteq> [] then
        (if check_dupes c then (out, Some Duplicate_key)
         else if data c \<noteq> [] then (out, Some Mixed_data_and_children)
         else (case write_keys (children c) True (out @ ''['' @ k @ '']'' @ [nl]) of
                 (out', Some e) \<Rightarrow> (out', Some e)
               | (out', None) \<Rightarrow> write_sections rest out'))
      else write_sections rest out)"

definition write_ini :: "ptree \<Rightarrow> string \<times> ini_parser_error option" where
  "write_ini pt =
     (if data pt \<noteq> [] then ([], Some Data_on_root)
      else if check_dupes pt then ([], Some Duplicate_key)
      else (case write_keys (children pt) False [] of
              (out, Some e) \<Rightarrow> (out, Some e)
            | (out, None) \<Rightarrow> write_sections (children pt) out))"

subsection \<open>Files\<close>

text \<open>
  The files the program can see: the text of each file that can be opened for reading,
  and which names can be opened for writing.
\<close>

record filesystem =
  contents :: "string \<Rightarrow> string option"
  writable :: "string \<Rightarrow> bool"

text \<open>
  \<^verbatim>\<open>read_ini(filename, tree)\<close>, the overload that takes a \<^verbatim>\<open>std::string\<close>: it opens the
  file of that name and fails with "cannot open file" when it cannot.
\<close>

definition read_ini_file :: "filesystem \<Rightarrow> string \<Rightarrow> ini_parser_error + ptree" where
  "read_ini_file fs filename =
     (case contents fs filename of
        None \<Rightarrow> Inl Cannot_open_file
      | Some text \<Rightarrow> read_ini text)"

text \<open>
  \<^verbatim>\<open>std::ifstream ifs(name); read_ini(ifs, tree)\<close>: a stream that failed to open is not
  \<^verbatim>\<open>good()\<close>, so the reader's loop does not run and the tree stays empty, without error.
\<close>

definition read_ini_ifstream :: "filesystem \<Rightarrow> string \<Rightarrow> ini_parser_error + ptree" where
  "read_ini_ifstream fs name =
     (case contents fs name of
        None \<Rightarrow> Inr empty_ptree
      | Some text \<Rightarrow> read_ini text)"

text \<open>
  \<^verbatim>\<open>write_ini(filename, tree)\<close>: opening the file truncates it; what the writer put out
  before an error stays in the file.
\<close>

definition write_ini_file ::
  "filesystem \<Rightarrow> string \<Rightarrow> ptree \<Rightarrow> filesystem \<times> ini_parser_error option" where
  "write_ini_file fs filename pt =
     (if \<not> writable fs filename then (fs, Some Cannot_open_file)
      else (case write_ini pt of
              (out, err) \<Rightarrow> (fs\<lparr>contents := (contents fs)(filename \<mapsto> out)\<rparr>, err)))"

subsection \<open>The settings record and the parse directions\<close>

text \<open>
  Modelled from the spec: the class declaration (\<^verbatim>\<open>GameConfig.hpp\<close>) is not among the
  sources. The four parse directions and the fields of the record are those of the
  specification's data model, with the names and types the file uses them at.
\<close>

datatype ParseType = DEFAULT | CONFIG | FILE | STRING

record GameConfig =
  m_configName :: string
  m_configPath :: string
  m_valid :: bool
  m_inputInvertY :: bool
  m_gamePath :: string
  m_gameLanguage :: string

definition kConfigDirectoryName :: string where
  "kConfigDirectoryName = ''OpenRW''"

definition getConfigFile :: "GameConfig \<Rightarrow> string" where
  "getConfigFile this = m_configPath this @ ''/'' @ m_configName this"

definition isValid :: "GameConfig \<Rightarrow> bool" where
  "isValid this = m_valid this"

text \<open>
  \<^verbatim>\<open>getDefaultConfigPath\<close> is selected at compile time by the platform macros and reads
  the environment; \<^verbatim>\<open>RW_ERROR\<close> only logs.
\<close>

datatype platform = Unix_like | OSX | Other_platform

definition getDefaultConfigPath :: "platform \<Rightarrow> (string \<Rightarrow> string option) \<Rightarrow> string" where
  "getDefaultConfigPath pl getenv =
     (case pl of
        Unix_like \<Rightarrow>
          (case getenv ''XDG_CONFIG_HOME'' of
             Some config_home \<Rightarrow> config_home @ ''/'' @ kConfigDirectoryName
           | None \<Rightarrow>
               (case getenv ''HOME'' of
                  Some home \<Rightarrow> home @ ''/.config/'' @ kConfigDirectoryName
                | None \<Rightarrow> ''.''))
      | OSX \<Rightarrow>
          (case getenv ''HOME'' of
             Some home \<Rightarrow> home @ ''/Library/Preferences/'' @ kConfigDirectoryName
           | None \<Rightarrow> ''.'')
      | Other_platform \<Rightarrow> ''.'')"

subsection \<open>The codecs\<close>

definition StringTranslator :: "string translator" where
  "StringTranslator =
     \<lparr>get_value = (\<lambda>str. Inr (Some (stripComments str))),
      put_value = (\<lambda>str. Some str)\<rparr>"

text \<open>
  The two numeric codecs catch \<^verbatim>\<open>std::invalid_argument\<close> and nothing else: what else
  \<^verbatim>\<open>std::stoi\<close> throws leaves \<^verbatim>\<open>get_value\<close>.
\<close>

definition BoolTranslator :: "bool translator" where
  "BoolTranslator =
     \<lparr>get_value = (\<lambda>str.
        case stoi (stripComments str) of
          Stoi_value v \<Rightarrow> Inr (Some (v \<noteq> 0))
        | Invalid_argument \<Rightarrow> Inr None
        | Out_of_range \<Rightarrow> Inl Std_out_of_range),
      put_value = (\<lambda>b. Some (if b then ''1'' else ''0''))\<rparr>"

fun digits_of :: "nat \<Rightarrow> string" where
  "digits_of n =
     (if n < 10 then [char_of (48 + n)]
      else digits_of (n div 10) @ [char_of (48 + n mod 10)])"

declare digits_of.simps [simp del]

definition to_string :: "int \<Rightarrow> string" where
  "to_string i = (if i < 0 then ''-'' @ digits_of (nat (- i)) else digits_of (nat i))"

definition IntTranslator :: "int translator" where
  "IntTranslator =
     \<lparr>get_value = (\<lambda>str.
        case stoi (stripComments str) of
          Stoi_value v \<Rightarrow> Inr (Some v)
        | Invalid_argument \<Rightarrow> Inr None
        | Out_of_range \<Rightarrow> Inl Std_out_of_range),
      put_value = (\<lambda>i. Some (to_string i))\<rparr>"

subsection \<open>parseConfig\<close>

text \<open>
  What a member function call leaves behind: it returns a value, with the record and the
  files as they are then, or an exception leaves it, with the record as it is then.
\<close>

datatype 'a outcome =
    Returned 'a (config: GameConfig) filesystem
  | Raised exn (config: GameConfig)

text \<open>
  What the closure \<^verbatim>\<open>read_config\<close> captures by reference and changes: the flag
  \<^verbatim>\<open>success\<close>, the tree \<^verbatim>\<open>srcTree\<close>, and the record behind \<^verbatim>\<open>this\<close>.
\<close>

record transfer =
  success :: bool
  srcTree :: ptree
  self :: GameConfig

text \<open>
  The first \<^verbatim>\<open>switch\<close> of \<^verbatim>\<open>read_config\<close>. \<open>Inr (Some v)\<close>: the value to go on with;
  \<open>Inr None\<close>: the closure sets \<^verbatim>\<open>success = false\<close> and returns at once; \<open>Inl e\<close>: an
  exception that neither handler catches.
\<close>

definition source_value ::
  "ParseType \<Rightarrow> ptree \<Rightarrow> string \<Rightarrow> 'a \<Rightarrow> 'a \<Rightarrow> 'a translator \<Rightarrow> bool \<Rightarrow> exn + 'a option" where
  "source_value srcType tree key target defaultValue translator optional =
     (case srcType of
        DEFAULT \<Rightarrow> Inr (Some defaultValue)
      | CONFIG \<Rightarrow> Inr (Some target)
      | _ \<Rightarrow>
          (case ptree_get tree key translator of
             Inr v \<Rightarrow> Inr (Some v)
           | Inl e \<Rightarrow>
               (case e of
                  Ptree_bad_path \<Rightarrow> if \<not> optional then Inr None else Inr (Some defaultValue)
                | Ptree_bad_data \<Rightarrow> Inr None
                | Std_out_of_range \<Rightarrow> Inl e)))"

text \<open>
  \<^verbatim>\<open>read_config(key, target, defaultValue, translator, optional)\<close>. The field \<open>target\<close>
  of the record is given by its reader \<open>target\<close> and its writer \<open>target_set\<close>.
\<close>

definition read_config ::
  "ParseType \<Rightarrow> ParseType \<Rightarrow> string \<Rightarrow> (GameConfig \<Rightarrow> 'a) \<Rightarrow> ('a \<Rightarrow> GameConfig \<Rightarrow> GameConfig) \<Rightarrow>
   'a \<Rightarrow> 'a translator \<Rightarrow> bool \<Rightarrow> transfer \<Rightarrow> exn + transfer" where
  "read_config srcType destType key target target_set defaultValue translator optional st =
     (case source_value srcType (srcTree st) key (target (self st)) defaultValue
             translator optional of
        Inl e \<Rightarrow> Inl e
      | Inr None \<Rightarrow> Inr (st\<lparr>success := False\<rparr>)
      | Inr (Some sourceValue) \<Rightarrow>
          (case ptree_put (srcTree st) key sourceValue translator of
             Inl e \<Rightarrow> Inl e
           | Inr tree \<Rightarrow>
               (case destType of
                  DEFAULT \<Rightarrow> Inr (st\<lparr>srcTree := tree, success := False\<rparr>)
                | CONFIG \<Rightarrow>
                    Inr (st\<lparr>srcTree := tree, self := target_set sourceValue (self st)\<rparr>)
                | _ \<Rightarrow> Inr (st\<lparr>srcTree := tree\<rparr>))))"

text \<open>
  The three calls of \<^verbatim>\<open>read_config\<close>, in the order of the source. An exception ends
  the sequence; the record is then as the calls before left it.
\<close>

definition read_fields :: "ParseType \<Rightarrow> ParseType \<Rightarrow> transfer \<Rightarrow> exn \<times> GameConfig + transfer" where
  "read_fields srcType destType st0 =
     (case read_config srcType destType ''game.path'' m_gamePath
             (\<lambda>v this. this\<lparr>m_gamePath := v\<rparr>) ''/opt/games/Grand Theft Auto 3''
             StringTranslator False st0 of
        Inl e \<Rightarrow> Inl (e, self st0)
      | Inr st1 \<Rightarrow>
          (case read_config srcType destType ''game.language'' m_gameLanguage
                  (\<lambda>v this. this\<lparr>m_gameLanguage := v\<rparr>) ''american''
                  StringTranslator True st1 of
             Inl e \<Rightarrow> Inl (e, self st1)
           | Inr st2 \<Rightarrow>
               (case read_config srcType destType ''input.invert_y'' m_inputInvertY
                       (\<lambda>v this. this\<lparr>m_inputInvertY := v\<rparr>) False
                       BoolTranslator True st2 of
                  Inl e \<Rightarrow> Inl (e, self st2)
                | Inr st3 \<Rightarrow> Inr st3)))"

text \<open>
  The source tree. For \<^verbatim>\<open>STRING\<close> the source calls \<^verbatim>\<open>read_ini(source, srcTree)\<close> with
  \<open>source\<close> a \<^verbatim>\<open>std::string\<close>, which is the library's overload that takes a file name
  (as \<^verbatim>\<open>write_ini(destination, srcTree)\<close> is for a \<^verbatim>\<open>FILE\<close> destination further down);
  for \<^verbatim>\<open>FILE\<close> it opens a stream itself. For the other two the tree stays empty.
\<close>

definition read_source :: "filesystem \<Rightarrow> ParseType \<Rightarrow> string \<Rightarrow> ini_parser_error + ptree" where
  "read_source fs srcType source =
     (if srcType = STRING then read_ini_file fs source
      else if srcType = FILE then read_ini_ifstream fs source
      else Inr empty_ptree)"

text \<open>
  \<^verbatim>\<open>parseConfig(srcType, source, destType, destination)\<close> on the record \<open>this\<close>. It
  returns the boolean and the out-parameter \<open>destination\<close>.
\<close>

definition parseConfig ::
  "filesystem \<Rightarrow> GameConfig \<Rightarrow> ParseType \<Rightarrow> string \<Rightarrow> ParseType \<Rightarrow> string \<Rightarrow>
   (bool \<times> string) outcome" where
  "parseConfig fs this srcType source destType destination =
     (case read_source fs srcType source of
        Inl e \<Rightarrow> Returned (False, destination) this fs
      | Inr tree \<Rightarrow>
          if destType = DEFAULT then Returned (False, destination) this fs
          else
            (case read_fields srcType destType
                    \<lparr>success = True, srcTree = tree, self = this\<rparr> of
               Inl (e, this') \<Rightarrow> Raised e this'
             | Inr st \<Rightarrow>
                 if \<not> success st then Returned (False, destination) (self st) fs
                 else if destType = STRING then
                   (case write_ini (srcTree st) of
                      (out, None) \<Rightarrow> Returned (True, out) (self st) fs
                    | (out, Some e) \<Rightarrow> Returned (False, destination) (self st) fs)
                 else if destType = FILE then
                   (case write_ini_file fs destination (srcTree st) of
                      (fs', None) \<Rightarrow> Returned (True, destination) (self st) fs'
                    | (fs', Some e) \<Rightarrow> Returned (False, destination) (self st) fs')
                 else Returned (True, destination) (self st) fs))"

subsection \<open>The entry points\<close>

text \<open>
  The constructor. An exception that leaves \<^verbatim>\<open>parseConfig\<close> leaves the constructor, and
  there is no object then.
\<close>

definition member_init :: "string \<Rightarrow> string \<Rightarrow> GameConfig" where
  "member_init configName configPath =
     \<lparr>m_configName = configName, m_configPath = configPath,
      m_valid = False, m_inputInvertY = False,
      m_gamePath = [], m_gameLanguage = []\<rparr>"

definition GameConfig_new ::
  "filesystem \<Rightarrow> platform \<Rightarrow> (string \<Rightarrow> string option) \<Rightarrow> string \<Rightarrow> string \<Rightarrow> exn + GameConfig" where
  "GameConfig_new fs pl getenv configName configPath =
     (let this0 = member_init configName configPath;
          this = (if m_configPath this0 = []
                  then this0\<lparr>m_configPath := getDefaultConfigPath pl getenv\<rparr>
                  else this0);
          configFile = getConfigFile this
      in case parseConfig fs this FILE configFile CONFIG [] of
           Raised e this' \<Rightarrow> Inl e
         | Returned r this' fs' \<Rightarrow> Inr (this'\<lparr>m_valid := fst r\<rparr>))"

definition saveConfig :: "filesystem \<Rightarrow> GameConfig \<Rightarrow> bool outcome" where
  "saveConfig fs this =
     (case parseConfig fs this CONFIG [] FILE (getConfigFile this) of
        Raised e this' \<Rightarrow> Raised e this'
      | Returned r this' fs' \<Rightarrow> Returned (fst r) this' fs')"

definition getDefaultINIString :: "filesystem \<Rightarrow> GameConfig \<Rightarrow> string outcome" where
  "getDefaultINIString fs this =
     (case parseConfig fs this DEFAULT [] STRING [] of
        Raised e this' \<Rightarrow> Raised e this'
      | Returned r this' fs' \<Rightarrow> Returned (snd r) this' fs')"

subsection \<open>Sample inputs\<close>

text \<open>A text from its lines, each ended by a line feed.\<close>

definition text_of_lines :: "string list \<Rightarrow> string" where
  "text_of_lines ls = concat (map (\<lambda>l. l @ [nl]) ls)"

text \<open>A file system with one readable file and nothing that can be written.\<close>

definition single_file :: "string \<Rightarrow> string \<Rightarrow> filesystem" where
  "single_file name text =
     \<lparr>contents = (\<lambda>n. if n = name then Some text else None), writable = (\<lambda>n. False)\<rparr>"

section \<open>Properties\<close>

subsection \<open>The string codec\<close>

lemma substr0_find_first_of:
  "substr0 str (find_first_of str cs) = takeWhile (\<lambda>c. c \<notin> set cs) str"
  by (induction str) (auto simp: substr0_def split: option.splits)

lemma find_last_not_of_None:
  "find_last_not_of s cs = None \<longleftrightarrow> (\<forall>c \<in> set s. c \<in> set cs)"
  by (induction s) (auto split: option.splits)

lemma erase_after_find_last_not_of:
  "erase_after s (find_last_not_of s cs) = rev (dropWhile (\<lambda>c. c \<in> set cs) (rev s))"
proof (induction s)
  case Nil
  then show ?case by (simp add: erase_after_def)
next
  case (Cons x xs)
  show ?case
  proof (cases "find_last_not_of xs cs")
    case None
    then have all: "\<forall>c \<in> set xs. c \<in> set cs"
      by (simp add: find_last_not_of_None)
    then have "dropWhile (\<lambda>c. c \<in> set cs) (rev xs @ [x]) = dropWhile (\<lambda>c. c \<in> set cs) [x]"
      by (intro dropWhile_append2) simp
    with None show ?thesis
      by (simp add: erase_after_def)
  next
    case (Some i)
    then have "\<not> (\<forall>c \<in> set xs. c \<in> set cs)"
      using find_last_not_of_None [of xs cs] by simp
    then obtain y where y: "y \<in> set (rev xs)" "\<not> y \<in> set cs"
      by auto
    then have "dropWhile (\<lambda>c. c \<in> set cs) (rev xs @ [x]) =
        dropWhile (\<lambda>c. c \<in> set cs) (rev xs) @ [x]"
      by (rule dropWhile_append1)
    moreover from Cons.IH Some
    have "take (Suc i) xs = rev (dropWhile (\<lambda>c. c \<in> set cs) (rev xs))"
      by (simp add: erase_after_def)
    ultimately show ?thesis using Some
      by (simp add: erase_after_def)
  qed
qed

lemma stripComments_spec: "stripComments str = strip_spec str"
proof -
  have a: "(\<lambda>c. c \<notin> set '';#'') = (\<lambda>c. \<not> is_comment_char c)"
    by (auto simp: is_comment_char_def)
  have b: "(\<lambda>c. c \<in> set [CHR 0x20, CHR 0x0A, CHR 0x0D, CHR 0x09]) = is_trailing_ws"
    by (auto simp: is_trailing_ws_def)
  show ?thesis
    unfolding stripComments_def Let_def substr0_find_first_of erase_after_find_last_not_of a b
    by (simp add: strip_spec_def drop_trailing_ws_def before_comment_def)
qed

text \<open>
  C6. The string codec decodes every value to the part before the first \<^verbatim>\<open>;\<close> or \<^verbatim>\<open>#\<close>
  (all of it when there is none) with the trailing space, line feed, carriage return and
  tab characters removed, and encodes a value as itself; \<^verbatim>\<open>american ; default\<close> decodes
  to \<^verbatim>\<open>american\<close>.
\<close>

theorem string_codec:
  "get_value StringTranslator str = Inr (Some (strip_spec str)) \<and>
   put_value StringTranslator str = Some str \<and>
   get_value StringTranslator ''american ; default'' = Inr (Some ''american'')"
proof -
  have "strip_spec ''american ; default'' = ''american''"
    by (simp add: strip_spec_def drop_trailing_ws_def before_comment_def
        is_comment_char_def is_trailing_ws_def)
  then show ?thesis
    by (simp add: StringTranslator_def stripComments_spec)
qed

subsection \<open>Lookups in the tree across the three calls\<close>

lemma fragments_keys:
  "fragments ''game.path'' = [''game'', ''path'']"
  "fragments ''game.language'' = [''game'', ''language'']"
  "fragments ''input.invert_y'' = [''input'', ''invert_y'']"
  by (simp_all add: fragments_def)

lemma map_of_update_child:
  "map_of (update_child k f cs) k' = (if k' = k then map_option f (map_of cs k) else map_of cs k')"
  by (induction cs) auto

lemma map_of_snoc:
  "map_of (cs @ [(k, v)]) k' = (case map_of cs k' of Some x \<Rightarrow> Some x | None \<Rightarrow> if k' = k then Some v else None)"
  by (induction cs) auto

lemma walk_set_data_other:
  "(a, b) \<noteq> (c, d) \<Longrightarrow> walk_path (set_data_at t [a, b] x) [c, d] = walk_path t [c, d]"
  by (cases t) (auto simp: map_of_update_child split: option.splits)

lemma walk_put_child_other:
  "(a, b) \<noteq> (c, d) \<Longrightarrow> walk_path (put_child t [a, b] v) [c, d] = walk_path t [c, d]"
  by (cases t) (auto simp: map_of_update_child map_of_snoc split: option.splits)

lemma read_config_string_load:
  assumes "src = FILE \<or> src = STRING" and "fragments key = p"
  shows "read_config src CONFIG key tgt tset dflt StringTranslator opt st =
    (case walk_path (srcTree st) p of
       None \<Rightarrow>
         if opt then Inr (st\<lparr>srcTree := put_child (srcTree st) p (Ptree dflt []),
                               self := tset dflt (self st)\<rparr>)
         else Inr (st\<lparr>success := False\<rparr>)
     | Some n \<Rightarrow>
         Inr (st\<lparr>srcTree := set_data_at (srcTree st) p (stripComments (data n)),
                  self := tset (stripComments (data n)) (self st)\<rparr>))"
  using assms
  by (auto simp: read_config_def source_value_def ptree_get_def ptree_put_def
      StringTranslator_def split: option.splits)

lemma read_config_bool_load:
  assumes "src = FILE \<or> src = STRING" and "fragments key = p"
  shows "read_config src CONFIG key tgt tset dflt BoolTranslator True st =
    (case walk_path (srcTree st) p of
       None \<Rightarrow>
         Inr (st\<lparr>srcTree := put_child (srcTree st) p (Ptree (if dflt then ''1'' else ''0'') []),
                  self := tset dflt (self st)\<rparr>)
     | Some n \<Rightarrow>
         (case stoi (stripComments (data n)) of
            Stoi_value v \<Rightarrow>
              Inr (st\<lparr>srcTree := set_data_at (srcTree st) p (if v \<noteq> 0 then ''1'' else ''0''),
                       self := tset (v \<noteq> 0) (self st)\<rparr>)
          | Invalid_argument \<Rightarrow> Inr (st\<lparr>success := False\<rparr>)
          | Out_of_range \<Rightarrow> Inl Std_out_of_range))"
  using assms
  by (auto simp: read_config_def source_value_def ptree_get_def ptree_put_def
      BoolTranslator_def split: option.splits stoi_result.splits)



lemma string_step:
  assumes src: "src = FILE \<or> src = STRING" and key: "fragments key = [a, b]"
  shows "\<exists>t'. read_config src CONFIG key tgt tset dflt StringTranslator opt st =
      Inr \<lparr>success = (success st \<and> (opt \<or> walk_path (srcTree st) [a, b] \<noteq> None)),
           srcTree = t',
           self = (case walk_path (srcTree st) [a, b] of
                     None \<Rightarrow> if opt then tset dflt (self st) else self st
                   | Some n \<Rightarrow> tset (stripComments (data n)) (self st))\<rparr>
    \<and> (\<forall>c d. (a, b) \<noteq> (c, d) \<longrightarrow> walk_path t' [c, d] = walk_path (srcTree st) [c, d])"
proof (cases "walk_path (srcTree st) [a, b]")
  case None
  show ?thesis
  proof (cases opt)
    case True
    with None show ?thesis
      unfolding read_config_string_load [OF src key]
      by (intro exI [of _ "put_child (srcTree st) [a, b] (Ptree dflt [])"])
        (simp add: walk_put_child_other del: put_child.simps walk_path.simps)
  next
    case False
    with None show ?thesis
      unfolding read_config_string_load [OF src key]
      by (intro exI [of _ "srcTree st"]) (simp del: put_child.simps walk_path.simps)
  qed
next
  case (Some n)
  then show ?thesis
    unfolding read_config_string_load [OF src key]
    by (intro exI [of _ "set_data_at (srcTree st) [a, b] (stripComments (data n))"])
      (simp add: walk_set_data_other del: set_data_at.simps walk_path.simps)
qed


lemma read_fields_load:
  fixes t :: ptree and c :: GameConfig
  defines "P \<equiv> walk_path t [''game'', ''path'']"
    and "L \<equiv> walk_path t [''game'', ''language'']"
    and "Y \<equiv> walk_path t [''input'', ''invert_y'']"
  defines "c1 \<equiv> (case P of None \<Rightarrow> c | Some n \<Rightarrow> c\<lparr>m_gamePath := stripComments (data n)\<rparr>)"
  defines "c2 \<equiv> c1\<lparr>m_gameLanguage :=
      (case L of None \<Rightarrow> ''american'' | Some n \<Rightarrow> stripComments (data n))\<rparr>"
  assumes src: "src = FILE \<or> src = STRING"
  shows "map_sum id (\<lambda>st. (success st, self st))
      (read_fields src CONFIG \<lparr>success = True, srcTree = t, self = c\<rparr>) =
    (case Y of
       None \<Rightarrow> Inr (P \<noteq> None, c2\<lparr>m_inputInvertY := False\<rparr>)
     | Some n \<Rightarrow>
         (case stoi (stripComments (data n)) of
            Stoi_value v \<Rightarrow> Inr (P \<noteq> None, c2\<lparr>m_inputInvertY := (v \<noteq> 0)\<rparr>)
          | Invalid_argument \<Rightarrow> Inr (False, c2)
          | Out_of_range \<Rightarrow> Inl (Std_out_of_range, c2)))"
proof -
  let ?st0 = "\<lparr>success = True, srcTree = t, self = c\<rparr>"
  obtain t1 where r1: "read_config src CONFIG ''game.path'' m_gamePath
        (\<lambda>v this. this\<lparr>m_gamePath := v\<rparr>) ''/opt/games/Grand Theft Auto 3''
        StringTranslator False ?st0 = Inr \<lparr>success = (P \<noteq> None), srcTree = t1, self = c1\<rparr>"
    and w1: "\<And>k d. (''game'', ''path'') \<noteq> (k, d) \<Longrightarrow> walk_path t1 [k, d] = walk_path t [k, d]"
    using string_step [OF src fragments_keys(1), of m_gamePath
        "\<lambda>v this. this\<lparr>m_gamePath := v\<rparr>" "''/opt/games/Grand Theft Auto 3''" False ?st0]
    unfolding P_def c1_def
    by (auto simp del: walk_path.simps split: option.splits)
  let ?st1 = "\<lparr>success = (P \<noteq> None), srcTree = t1, self = c1\<rparr>"
  have L1: "walk_path t1 [''game'', ''language''] = L"
    unfolding L_def by (rule w1) simp
  obtain t2 where r2: "read_config src CONFIG ''game.language'' m_gameLanguage
        (\<lambda>v this. this\<lparr>m_gameLanguage := v\<rparr>) ''american''
        StringTranslator True ?st1 = Inr \<lparr>success = (P \<noteq> None), srcTree = t2, self = c2\<rparr>"
    and w2: "\<And>k d. (''game'', ''language'') \<noteq> (k, d) \<Longrightarrow> walk_path t2 [k, d] = walk_path t1 [k, d]"
    using string_step [OF src fragments_keys(2), of m_gameLanguage
        "\<lambda>v this. this\<lparr>m_gameLanguage := v\<rparr>" "''american''" True ?st1]
    unfolding c2_def
    by (auto simp add: L1 simp del: walk_path.simps split: option.splits)
  let ?st2 = "\<lparr>success = (P \<noteq> None), srcTree = t2, self = c2\<rparr>"
  have Y2: "walk_path t2 [''input'', ''invert_y''] = Y"
    unfolding Y_def using w1 [of "''input''" "''invert_y''"] w2 [of "''input''" "''invert_y''"]
    by simp
  have r3: "map_sum id (\<lambda>st. (success st, self st))
        (case read_config src CONFIG ''input.invert_y'' m_inputInvertY
                (\<lambda>v this. this\<lparr>m_inputInvertY := v\<rparr>) False BoolTranslator True ?st2 of
           Inl e \<Rightarrow> Inl (e, self ?st2)
         | Inr st3 \<Rightarrow> Inr st3) =
      (case Y of
         None \<Rightarrow> Inr (P \<noteq> None, c2\<lparr>m_inputInvertY := False\<rparr>)
       | Some n \<Rightarrow>
           (case stoi (stripComments (data n)) of
              Stoi_value v \<Rightarrow> Inr (P \<noteq> None, c2\<lparr>m_inputInvertY := (v \<noteq> 0)\<rparr>)
            | Invalid_argument \<Rightarrow> Inr (False, c2)
            | Out_of_range \<Rightarrow> Inl (Std_out_of_range, c2)))"
    unfolding read_config_bool_load [OF src fragments_keys(3)]
    by (simp add: Y2 del: walk_path.simps put_child.simps set_data_at.simps
        split: option.splits stoi_result.splits)
  show ?thesis
    unfolding read_fields_def r1 sum.case r2 by (rule r3)
qed

lemma parseConfig_load:
  assumes src: "src = FILE \<or> src = STRING"
    and rs: "read_source fs src source = Inr t"
  shows "parseConfig fs c src source CONFIG dest =
    (case map_sum id (\<lambda>st. (success st, self st))
            (read_fields src CONFIG \<lparr>success = True, srcTree = t, self = c\<rparr>) of
       Inl (e, c') \<Rightarrow> Raised e c'
     | Inr (b, c') \<Rightarrow> Returned (b, dest) c' fs)"
  by (simp add: parseConfig_def rs split: sum.splits)


lemma load_closed_form:
  fixes t :: ptree and c :: GameConfig
  defines "P \<equiv> walk_path t [''game'', ''path'']"
    and "L \<equiv> walk_path t [''game'', ''language'']"
    and "Y \<equiv> walk_path t [''input'', ''invert_y'']"
  defines "c1 \<equiv> (case P of None \<Rightarrow> c | Some n \<Rightarrow> c\<lparr>m_gamePath := stripComments (data n)\<rparr>)"
  defines "c2 \<equiv> c1\<lparr>m_gameLanguage :=
      (case L of None \<Rightarrow> ''american'' | Some n \<Rightarrow> stripComments (data n))\<rparr>"
  assumes src: "src = FILE \<or> src = STRING"
    and rs: "read_source fs src source = Inr t"
  shows "parseConfig fs c src source CONFIG dest =
    (case Y of
       None \<Rightarrow> Returned (P \<noteq> None, dest) (c2\<lparr>m_inputInvertY := False\<rparr>) fs
     | Some n \<Rightarrow>
         (case stoi (stripComments (data n)) of
            Stoi_value v \<Rightarrow> Returned (P \<noteq> None, dest) (c2\<lparr>m_inputInvertY := (v \<noteq> 0)\<rparr>) fs
          | Invalid_argument \<Rightarrow> Returned (False, dest) c2 fs
          | Out_of_range \<Rightarrow> Raised Std_out_of_range c2))"
  unfolding parseConfig_load [OF src rs] read_fields_load [OF src]
    P_def L_def Y_def c1_def c2_def
  by (simp del: walk_path.simps split: option.splits stoi_result.splits)


lemma GameConfig_new_unfold:
  "GameConfig_new fs pl getenv configName configPath =
    (case parseConfig fs
            (member_init configName
               (if configPath = [] then getDefaultConfigPath pl getenv else configPath))
            FILE
            ((if configPath = [] then getDefaultConfigPath pl getenv else configPath)
               @ ''/'' @ configName)
            CONFIG [] of
       Raised e this' \<Rightarrow> Inl e
     | Returned r this' fs' \<Rightarrow> Inr (this'\<lparr>m_valid := fst r\<rparr>))"
  by (simp add: GameConfig_new_def Let_def member_init_def getConfigFile_def)

lemma read_source_single_file:
  "read_source (single_file name text) FILE name = read_ini text"
  "read_source (single_file name text) STRING name = read_ini text"
  by (simp_all add: read_source_def single_file_def read_ini_file_def read_ini_ifstream_def)

lemma read_source_contents:
  "src = FILE \<or> src = STRING \<Longrightarrow> contents fs source = Some text \<Longrightarrow>
    read_source fs src source = read_ini text"
  by (auto simp: read_source_def read_ini_file_def read_ini_ifstream_def)

lemmas ini_eval = read_ini_def text_of_lines_def nl_def read_ini_line_def trim_def
  isspace_def close_section_def

lemmas codec_eval = stoi_def take_sign_def stripComments_def substr0_def erase_after_def isspace_def
  isdigit_def digits_value_def digit_val_def INT_MIN_def INT_MAX_def

lemma bool_get_value:
  "get_value BoolTranslator s =
    (case stoi (stripComments s) of
       Stoi_value v \<Rightarrow> Inr (Some (v \<noteq> 0))
     | Invalid_argument \<Rightarrow> Inr None
     | Out_of_range \<Rightarrow> Inl Std_out_of_range)"
  by (simp add: BoolTranslator_def)

lemma ptree_get_bool:
  "ptree_get t ''input.invert_y'' BoolTranslator =
    (case walk_path t [''input'', ''invert_y''] of
       None \<Rightarrow> Inl Ptree_bad_path
     | Some n \<Rightarrow>
         (case stoi (stripComments (data n)) of
            Stoi_value v \<Rightarrow> Inr (v \<noteq> 0)
          | Invalid_argument \<Rightarrow> Inl Ptree_bad_data
          | Out_of_range \<Rightarrow> Inl Std_out_of_range))"
  by (simp add: ptree_get_def fragments_keys bool_get_value del: walk_path.simps
      split: option.splits stoi_result.splits)

lemma ptree_get_string:
  "ptree_get t key StringTranslator =
    (case walk_path t (fragments key) of
       None \<Rightarrow> Inl Ptree_bad_path
     | Some n \<Rightarrow> Inr (stripComments (data n)))"
  by (simp add: ptree_get_def StringTranslator_def split: option.splits)

subsection \<open>An integer token that does not fit int\<close>

text \<open>
  C9. \<^verbatim>\<open>parseConfig\<close> does not return on every source text. The boolean and the integer
  codec catch \<^verbatim>\<open>std::invalid_argument\<close> only, so for a value of \<^verbatim>\<open>input.invert_y\<close> whose
  integer token is outside the range of \<^verbatim>\<open>int\<close> the \<^verbatim>\<open>std::out_of_range\<close> of \<^verbatim>\<open>std::stoi\<close>
  leaves the codec, is caught by neither handler of \<^verbatim>\<open>read_config\<close>, and leaves the load
  and the constructor; no boolean is returned.
\<close>

theorem out_of_range_escapes:
  assumes src: "src = FILE \<or> src = STRING"
    and rs: "read_source fs src source = Inr t"
    and w: "walk_path t (fragments ''input.invert_y'') = Some n"
    and ov: "stoi (stripComments (data n)) = Out_of_range"
  shows "get_value BoolTranslator (data n) = Inl Std_out_of_range
    \<and> get_value IntTranslator (data n) = Inl Std_out_of_range
    \<and> (\<exists>c'. parseConfig fs c src source CONFIG dest = Raised Std_out_of_range c')
    \<and> (src = FILE \<and>
        source = (if configPath = [] then getDefaultConfigPath pl getenv else configPath)
                   @ ''/'' @ configName
        \<longrightarrow> GameConfig_new fs pl getenv configName configPath = Inl Std_out_of_range)"
proof -
  have raised: "\<exists>c'. parseConfig fs c0 src source CONFIG d0 = Raised Std_out_of_range c'"
    for c0 d0
    using w ov by (simp add: load_closed_form [OF src rs] fragments_keys del: walk_path.simps)
  have "GameConfig_new fs pl getenv configName configPath = Inl Std_out_of_range"
    if isfile: "src = FILE"
      and named: "source = (if configPath = [] then getDefaultConfigPath pl getenv else configPath)
                   @ ''/'' @ configName"
  proof -
    let ?dir = "if configPath = [] then getDefaultConfigPath pl getenv else configPath"
    obtain c' where "parseConfig fs (member_init configName ?dir) src source CONFIG [] =
        Raised Std_out_of_range c'"
      using raised by blast
    then have "parseConfig fs (member_init configName ?dir) FILE
        (?dir @ ''/'' @ configName) CONFIG [] = Raised Std_out_of_range c'"
      using isfile named by simp
    then show ?thesis
      by (simp add: GameConfig_new_unfold)
  qed
  moreover have "get_value BoolTranslator (data n) = Inl Std_out_of_range"
    using ov by (simp add: BoolTranslator_def)
  moreover have "get_value IntTranslator (data n) = Inl Std_out_of_range"
    using ov by (simp add: IntTranslator_def)
  ultimately show ?thesis
    using raised by blast
qed

lemma overflow_tree:
  "read_ini (text_of_lines [''[game]'', ''path=/data/games/gta3'', ''[input]'',
      ''invert_y=99999999999999999999'']) =
    Inr (Ptree [] [(''game'', Ptree [] [(''path'', Ptree ''/data/games/gta3'' [])]),
                   (''input'', Ptree [] [(''invert_y'', Ptree ''99999999999999999999'' [])])])"
  by (simp add: ini_eval)

theorem out_of_range_escapes_witness:
  "stoi (stripComments ''99999999999999999999'') = Out_of_range
   \<and> get_value BoolTranslator ''99999999999999999999'' = Inl Std_out_of_range
   \<and> get_value IntTranslator ''99999999999999999999'' = Inl Std_out_of_range
   \<and> (\<exists>c'. parseConfig
         (single_file ''conf/openrw.ini''
            (text_of_lines [''[game]'', ''path=/data/games/gta3'', ''[input]'',
               ''invert_y=99999999999999999999'']))
         (member_init ''openrw.ini'' ''conf'') FILE ''conf/openrw.ini'' CONFIG [] =
       Raised Std_out_of_range c')
   \<and> GameConfig_new
         (single_file ''conf/openrw.ini''
            (text_of_lines [''[game]'', ''path=/data/games/gta3'', ''[input]'',
               ''invert_y=99999999999999999999'']))
         Unix_like (\<lambda>v. None) ''openrw.ini'' ''conf'' = Inl Std_out_of_range"
proof -
  let ?text = "text_of_lines [''[game]'', ''path=/data/games/gta3'', ''[input]'',
      ''invert_y=99999999999999999999'']"
  let ?t = "Ptree [] [(''game'', Ptree [] [(''path'', Ptree ''/data/games/gta3'' [])]),
      (''input'', Ptree [] [(''invert_y'', Ptree ''99999999999999999999'' [])])]"
  have src: "FILE = FILE \<or> FILE = STRING" by simp
  have rs: "read_source (single_file ''conf/openrw.ini'' ?text) FILE ''conf/openrw.ini'' = Inr ?t"
    by (simp only: read_source_single_file overflow_tree)
  have w: "walk_path ?t (fragments ''input.invert_y'') = Some (Ptree ''99999999999999999999'' [])"
    by (simp add: fragments_keys)
  have st: "stoi (stripComments (data (Ptree ''99999999999999999999'' []))) = Out_of_range"
    by (simp add: codec_eval)
  show ?thesis
    using out_of_range_escapes [OF src rs w st, of "member_init ''openrw.ini'' ''conf''" "[]"
        "''conf''" Unix_like "\<lambda>v. None" "''openrw.ini''"] st
    by simp
qed

subsection \<open>Successful loads\<close>

lemma GameConfig_new_returned:
  assumes "parseConfig fs (member_init name dir) FILE (dir @ ''/'' @ name) CONFIG [] =
      Returned r c' fs'"
    and "dir = (if path = [] then getDefaultConfigPath pl getenv else path)"
  shows "GameConfig_new fs pl getenv name path = Inr (c'\<lparr>m_valid := fst r\<rparr>)"
  using assms by (simp add: GameConfig_new_unfold)

lemma gta3_tree:
  "read_ini (text_of_lines [''[game]'', ''path=/data/games/gta3'']) =
    Inr (Ptree [] [(''game'', Ptree [] [(''path'', Ptree ''/data/games/gta3'' [])])])"
  by (simp add: ini_eval)

lemma gta3_load:
  assumes src: "src = FILE \<or> src = STRING"
    and fl: "contents fs source = Some (text_of_lines [''[game]'', ''path=/data/games/gta3''])"
  shows "parseConfig fs c src source CONFIG dest =
    Returned (True, dest)
      (c\<lparr>m_gamePath := ''/data/games/gta3'', m_gameLanguage := ''american'',
         m_inputInvertY := False\<rparr>) fs"
proof -
  have rs: "read_source fs src source =
      Inr (Ptree [] [(''game'', Ptree [] [(''path'', Ptree ''/data/games/gta3'' [])])])"
    by (simp only: read_source_contents [OF src fl] gta3_tree)
  show ?thesis
    unfolding load_closed_form [OF src rs]
    by (simp add: stripComments_def substr0_def erase_after_def)
qed

lemma successful_load_fields:
  assumes src: "src = FILE \<or> src = STRING"
    and ok: "parseConfig fs c src source CONFIG dest = Returned (True, d) c' fs'"
  shows "\<exists>t. read_source fs src source = Inr t
      \<and> ptree_get t ''game.path'' StringTranslator = Inr (m_gamePath c')
      \<and> (ptree_get t ''game.language'' StringTranslator = Inr (m_gameLanguage c')
         \<or> ptree_get t ''game.language'' StringTranslator = Inl Ptree_bad_path
           \<and> m_gameLanguage c' = ''american'')
      \<and> (ptree_get t ''input.invert_y'' BoolTranslator = Inr (m_inputInvertY c')
         \<or> ptree_get t ''input.invert_y'' BoolTranslator = Inl Ptree_bad_path
           \<and> m_inputInvertY c' = False)"
proof (cases "read_source fs src source")
  case (Inl e)
  with ok show ?thesis by (simp add: parseConfig_def)
next
  case (Inr t)
  note cf = ok [unfolded load_closed_form [OF src Inr]]
  obtain n where P: "walk_path t [''game'', ''path''] = Some n"
    using cf by (cases "walk_path t [''game'', ''path'']")
      (auto simp del: walk_path.simps split: option.splits stoi_result.splits)
  have path: "ptree_get t ''game.path'' StringTranslator = Inr (m_gamePath c')"
    using cf P
    by (auto simp: ptree_get_string fragments_keys simp del: walk_path.simps
        split: option.splits stoi_result.splits)
  have lang: "ptree_get t ''game.language'' StringTranslator = Inr (m_gameLanguage c')
      \<or> ptree_get t ''game.language'' StringTranslator = Inl Ptree_bad_path
        \<and> m_gameLanguage c' = ''american''"
    using cf
    by (auto simp: ptree_get_string fragments_keys simp del: walk_path.simps
        split: option.splits stoi_result.splits)
  have inv: "ptree_get t ''input.invert_y'' BoolTranslator = Inr (m_inputInvertY c')
      \<or> ptree_get t ''input.invert_y'' BoolTranslator = Inl Ptree_bad_path
        \<and> m_inputInvertY c' = False"
    using cf
    by (auto simp: ptree_get_bool simp del: walk_path.simps
        split: option.splits stoi_result.splits)
  from Inr path lang inv show ?thesis by blast
qed

text \<open>
  Loads from the file that the source names. After a load into the record that returns
  true, \<^verbatim>\<open>m_gamePath\<close> is the value decoded from the key \<^verbatim>\<open>game.path\<close> of the tree that was
  read, and each optional field is the value decoded from its key, or its declared default
  when the key is absent. A file that holds only \<^verbatim>\<open>[game]\<close> and \<^verbatim>\<open>path=/data/games/gta3\<close>
  loads with success, with \<^verbatim>\<open>/data/games/gta3\<close>, \<^verbatim>\<open>american\<close> and false.
\<close>

lemma successful_load:
  "((src = FILE \<or> src = STRING)
      \<and> parseConfig fs c src source CONFIG dest = Returned (True, d) c' fs'
    \<longrightarrow> (\<exists>t. read_source fs src source = Inr t
          \<and> ptree_get t ''game.path'' StringTranslator = Inr (m_gamePath c')
          \<and> (ptree_get t ''game.language'' StringTranslator = Inr (m_gameLanguage c')
             \<or> ptree_get t ''game.language'' StringTranslator = Inl Ptree_bad_path
               \<and> m_gameLanguage c' = ''american'')
          \<and> (ptree_get t ''input.invert_y'' BoolTranslator = Inr (m_inputInvertY c')
             \<or> ptree_get t ''input.invert_y'' BoolTranslator = Inl Ptree_bad_path
               \<and> m_inputInvertY c' = False)))
   \<and> ((src = FILE \<or> src = STRING)
      \<and> contents fs source = Some (text_of_lines [''[game]'', ''path=/data/games/gta3''])
    \<longrightarrow> parseConfig fs c src source CONFIG dest =
          Returned (True, dest)
            (c\<lparr>m_gamePath := ''/data/games/gta3'', m_gameLanguage := ''american'',
               m_inputInvertY := False\<rparr>) fs)"
  using successful_load_fields gta3_load by blast

lemma successful_load_example:
  "parseConfig
     (single_file ''conf/openrw.ini'' (text_of_lines [''[game]'', ''path=/data/games/gta3'']))
     (member_init ''openrw.ini'' ''conf'') FILE ''conf/openrw.ini'' CONFIG [] =
   Returned (True, [])
     \<lparr>m_configName = ''openrw.ini'', m_configPath = ''conf'', m_valid = False,
      m_inputInvertY = False, m_gamePath = ''/data/games/gta3'',
      m_gameLanguage = ''american''\<rparr>
     (single_file ''conf/openrw.ini'' (text_of_lines [''[game]'', ''path=/data/games/gta3'']))
   \<and> (\<exists>t. read_source
          (single_file ''conf/openrw.ini'' (text_of_lines [''[game]'', ''path=/data/games/gta3'']))
          FILE ''conf/openrw.ini'' = Inr t
        \<and> ptree_get t ''game.path'' StringTranslator = Inr ''/data/games/gta3''
        \<and> ptree_get t ''game.language'' StringTranslator = Inl Ptree_bad_path
        \<and> ptree_get t ''input.invert_y'' BoolTranslator = Inl Ptree_bad_path)"
proof -
  let ?fs = "single_file ''conf/openrw.ini'' (text_of_lines [''[game]'', ''path=/data/games/gta3''])"
  let ?c = "member_init ''openrw.ini'' ''conf''"
  let ?c' = "\<lparr>m_configName = ''openrw.ini'', m_configPath = ''conf'', m_valid = False,
      m_inputInvertY = False, m_gamePath = ''/data/games/gta3'',
      m_gameLanguage = ''american''\<rparr>"
  have fl: "(FILE = FILE \<or> FILE = STRING)
      \<and> contents ?fs ''conf/openrw.ini'' =
        Some (text_of_lines [''[game]'', ''path=/data/games/gta3''])"
    by (simp add: single_file_def)
  have ld: "parseConfig ?fs ?c FILE ''conf/openrw.ini'' CONFIG [] = Returned (True, []) ?c' ?fs"
    using successful_load [THEN conjunct2, rule_format, OF fl, of ?c "[]"]
    by (simp add: member_init_def)
  have "\<exists>t. read_source ?fs FILE ''conf/openrw.ini'' = Inr t
      \<and> ptree_get t ''game.path'' StringTranslator = Inr (m_gamePath ?c')
      \<and> (ptree_get t ''game.language'' StringTranslator = Inr (m_gameLanguage ?c')
         \<or> ptree_get t ''game.language'' StringTranslator = Inl Ptree_bad_path
           \<and> m_gameLanguage ?c' = ''american'')
      \<and> (ptree_get t ''input.invert_y'' BoolTranslator = Inr (m_inputInvertY ?c')
         \<or> ptree_get t ''input.invert_y'' BoolTranslator = Inl Ptree_bad_path
           \<and> m_inputInvertY ?c' = False)"
    using successful_load [THEN conjunct1, rule_format, of FILE ?fs ?c "''conf/openrw.ini''"
        "[]" "[]" ?c' ?fs] ld
    by blast
  then obtain t where t: "read_source ?fs FILE ''conf/openrw.ini'' = Inr t"
    and p: "ptree_get t ''game.path'' StringTranslator = Inr (m_gamePath ?c')"
    by blast
  from t have "t = Ptree [] [(''game'', Ptree [] [(''path'', Ptree ''/data/games/gta3'' [])])]"
    by (simp add: read_source_single_file gta3_tree)
  then have "ptree_get t ''game.language'' StringTranslator = Inl Ptree_bad_path"
    and "ptree_get t ''input.invert_y'' BoolTranslator = Inl Ptree_bad_path"
    by (simp_all add: ptree_get_string ptree_get_bool fragments_keys)
  with t p ld show ?thesis
    by auto
qed

lemma default_ini_text:
  "getDefaultINIString fs c =
    Returned (text_of_lines [''[game]'', ''path=/opt/games/Grand Theft Auto 3'',
      ''language=american'', ''[input]'', ''invert_y=0'']) c fs"
  by (simp add: getDefaultINIString_def parseConfig_def read_source_def read_fields_def
      read_config_def source_value_def ptree_put_def fragments_keys empty_ptree_def
      StringTranslator_def BoolTranslator_def write_ini_def check_dupes_def
      text_of_lines_def)

lemma default_ini_tree:
  "read_ini (text_of_lines [''[game]'', ''path=/opt/games/Grand Theft Auto 3'',
      ''language=american'', ''[input]'', ''invert_y=0'']) =
    Inr (Ptree []
      [(''game'', Ptree [] [(''path'', Ptree ''/opt/games/Grand Theft Auto 3'' []),
                            (''language'', Ptree ''american'' [])]),
       (''input'', Ptree [] [(''invert_y'', Ptree ''0'' [])])])"
  by (simp add: ini_eval)

lemma default_ini_load:
  assumes src: "src = FILE \<or> src = STRING"
    and fl: "contents fs source = Some (text_of_lines [''[game]'',
      ''path=/opt/games/Grand Theft Auto 3'', ''language=american'', ''[input]'', ''invert_y=0''])"
  shows "parseConfig fs c src source CONFIG dest =
    Returned (True, dest)
      (c\<lparr>m_gamePath := ''/opt/games/Grand Theft Auto 3'', m_gameLanguage := ''american'',
         m_inputInvertY := False\<rparr>) fs"
proof -
  note rs = read_source_contents [OF src fl, unfolded default_ini_tree]
  show ?thesis
    unfolding load_closed_form [OF src rs]
    by (simp add: codec_eval)
qed

subsection \<open>The default text\<close>

text \<open>
  C3. Round trip: \<^verbatim>\<open>getDefaultINIString()\<close> returns a text, and loading a file that holds
  this text into any record succeeds and sets every field to its declared default:
  \<^verbatim>\<open>/opt/games/Grand Theft Auto 3\<close>, \<^verbatim>\<open>american\<close>, false. A record constructed on such a
  file is valid.
\<close>

theorem default_ini_round_trip:
  "\<exists>ini. getDefaultINIString fs0 c0 = Returned ini c0 fs0
     \<and> (\<forall>src fs source c dest.
          (src = FILE \<or> src = STRING) \<and> contents fs source = Some ini
          \<longrightarrow> parseConfig fs c src source CONFIG dest =
                Returned (True, dest)
                  (c\<lparr>m_gamePath := ''/opt/games/Grand Theft Auto 3'',
                     m_gameLanguage := ''american'', m_inputInvertY := False\<rparr>) fs)
     \<and> (\<forall>fs pl getenv name path dir.
          dir = (if path = [] then getDefaultConfigPath pl getenv else path)
          \<and> contents fs (dir @ ''/'' @ name) = Some ini
          \<longrightarrow> GameConfig_new fs pl getenv name path =
                Inr \<lparr>m_configName = name, m_configPath = dir, m_valid = True,
                     m_inputInvertY = False,
                     m_gamePath = ''/opt/games/Grand Theft Auto 3'',
                     m_gameLanguage = ''american''\<rparr>)"
proof -
  let ?text = "text_of_lines [''[game]'', ''path=/opt/games/Grand Theft Auto 3'',
      ''language=american'', ''[input]'', ''invert_y=0'']"
  have a: "getDefaultINIString fs0 c0 = Returned ?text c0 fs0"
    by (rule default_ini_text)
  have b: "parseConfig fs c src source CONFIG dest =
      Returned (True, dest)
        (c\<lparr>m_gamePath := ''/opt/games/Grand Theft Auto 3'',
           m_gameLanguage := ''american'', m_inputInvertY := False\<rparr>) fs"
    if h: "(src = FILE \<or> src = STRING) \<and> contents fs source = Some ?text"
    for src fs source c dest
    by (rule default_ini_load [OF h [THEN conjunct1] h [THEN conjunct2]])
  have c: "GameConfig_new fs pl getenv name path =
      Inr \<lparr>m_configName = name, m_configPath = dir, m_valid = True,
           m_inputInvertY = False,
           m_gamePath = ''/opt/games/Grand Theft Auto 3'',
           m_gameLanguage = ''american''\<rparr>"
    if h: "dir = (if path = [] then getDefaultConfigPath pl getenv else path)
        \<and> contents fs (dir @ ''/'' @ name) = Some ?text"
    for fs pl getenv name path dir
  proof -
    have "parseConfig fs (member_init name dir) FILE (dir @ ''/'' @ name) CONFIG [] =
        Returned (True, [])
          ((member_init name dir)\<lparr>m_gamePath := ''/opt/games/Grand Theft Auto 3'',
             m_gameLanguage := ''american'', m_inputInvertY := False\<rparr>) fs"
      by (rule default_ini_load [OF _ h [THEN conjunct2]]) simp
    from GameConfig_new_returned [OF this h [THEN conjunct1]] show ?thesis
      by (simp add: member_init_def)
  qed
  show ?thesis
    by (rule exI [of _ ?text]) (intro conjI allI impI a; rule b c; assumption)
qed

theorem default_ini_round_trip_witness:
  "\<exists>ini. getDefaultINIString (single_file [] []) (member_init ''openrw.ini'' ''conf'') =
       Returned ini (member_init ''openrw.ini'' ''conf'') (single_file [] [])
     \<and> parseConfig (single_file ''conf/openrw.ini'' ini) (member_init ''openrw.ini'' ''conf'')
         FILE ''conf/openrw.ini'' CONFIG [] =
       Returned (True, [])
         \<lparr>m_configName = ''openrw.ini'', m_configPath = ''conf'', m_valid = False,
          m_inputInvertY = False, m_gamePath = ''/opt/games/Grand Theft Auto 3'',
          m_gameLanguage = ''american''\<rparr>
         (single_file ''conf/openrw.ini'' ini)
     \<and> GameConfig_new (single_file ''conf/openrw.ini'' ini) Unix_like (\<lambda>v. None)
         ''openrw.ini'' ''conf'' =
       Inr \<lparr>m_configName = ''openrw.ini'', m_configPath = ''conf'', m_valid = True,
            m_inputInvertY = False, m_gamePath = ''/opt/games/Grand Theft Auto 3'',
            m_gameLanguage = ''american''\<rparr>"
proof -
  let ?fs0 = "single_file [] []"
  let ?c0 = "member_init ''openrw.ini'' ''conf''"
  from default_ini_round_trip [of ?fs0 ?c0]
  obtain ini where all: "getDefaultINIString ?fs0 ?c0 = Returned ini ?c0 ?fs0
     \<and> (\<forall>src fs source c dest.
          (src = FILE \<or> src = STRING) \<and> contents fs source = Some ini
          \<longrightarrow> parseConfig fs c src source CONFIG dest =
                Returned (True, dest)
                  (c\<lparr>m_gamePath := ''/opt/games/Grand Theft Auto 3'',
                     m_gameLanguage := ''american'', m_inputInvertY := False\<rparr>) fs)
     \<and> (\<forall>fs pl getenv name path dir.
          dir = (if path = [] then getDefaultConfigPath pl getenv else path)
          \<and> contents fs (dir @ ''/'' @ name) = Some ini
          \<longrightarrow> GameConfig_new fs pl getenv name path =
                Inr \<lparr>m_configName = name, m_configPath = dir, m_valid = True,
                     m_inputInvertY = False,
                     m_gamePath = ''/opt/games/Grand Theft Auto 3'',
                     m_gameLanguage = ''american''\<rparr>)" ..
  note a = all [THEN conjunct1]
  note b = all [THEN conjunct2, THEN conjunct1, rule_format]
  note c = all [THEN conjunct2, THEN conjunct2, rule_format]
  let ?fs = "single_file ''conf/openrw.ini'' ini"
  have fl: "contents ?fs ''conf/openrw.ini'' = Some ini"
    by (simp add: single_file_def)
  have 1: "parseConfig ?fs ?c0 FILE ''conf/openrw.ini'' CONFIG [] =
    Returned (True, [])
      (?c0\<lparr>m_gamePath := ''/opt/games/Grand Theft Auto 3'',
         m_gameLanguage := ''american'', m_inputInvertY := False\<rparr>) ?fs"
    by (rule b) (simp add: fl)
  have 2: "GameConfig_new ?fs Unix_like (\<lambda>v. None) ''openrw.ini'' ''conf'' =
    Inr \<lparr>m_configName = ''openrw.ini'', m_configPath = ''conf'', m_valid = True,
         m_inputInvertY = False, m_gamePath = ''/opt/games/Grand Theft Auto 3'',
         m_gameLanguage = ''american''\<rparr>"
    using fl by (intro c) simp
  have 3: "?c0\<lparr>m_gamePath := ''/opt/games/Grand Theft Auto 3'',
         m_gameLanguage := ''american'', m_inputInvertY := False\<rparr> =
      \<lparr>m_configName = ''openrw.ini'', m_configPath = ''conf'', m_valid = False,
       m_inputInvertY = False, m_gamePath = ''/opt/games/Grand Theft Auto 3'',
       m_gameLanguage = ''american''\<rparr>"
    by (simp add: member_init_def)
  show ?thesis
    by (rule exI [of _ ini]) (intro conjI a 1 [unfolded 3] 2)
qed

subsection \<open>Saving and the default text leave the record alone\<close>

lemma read_config_frame:
  assumes "dst = FILE \<or> dst = STRING"
    and "read_config src dst key tgt tset dflt tr opt st = Inr st'"
  shows "self st' = self st"
  using assms
  by (auto simp: read_config_def split: sum.splits option.splits)

lemma read_fields_frame:
  assumes dst: "dst = FILE \<or> dst = STRING"
  shows "read_fields src dst st = Inl (e, c') \<Longrightarrow> c' = self st"
    and "read_fields src dst st = Inr st' \<Longrightarrow> self st' = self st"
  unfolding read_fields_def
  by (auto split: sum.splits dest!: read_config_frame [OF dst])

lemma parseConfig_frame:
  assumes dst: "dst = FILE \<or> dst = STRING"
  shows "config (parseConfig fs c src source dst dest) = c"
proof (cases "read_source fs src source")
  case (Inl e)
  then show ?thesis by (simp add: parseConfig_def)
next
  case (Inr t)
  show ?thesis
  proof (cases "read_fields src dst \<lparr>success = True, srcTree = t, self = c\<rparr>")
    case (Inl ec)
    obtain e c' where ec: "ec = (e, c')"
      by (cases ec)
    with Inl have "c' = c"
      using read_fields_frame(1) [OF dst] by fastforce
    then show ?thesis
      using Inr Inl ec by (simp add: parseConfig_def)
  next
    case st: (Inr st')
    then have "self st' = c"
      using read_fields_frame(2) [OF dst] by fastforce
    then show ?thesis
      using Inr st by (simp add: parseConfig_def split: prod.splits option.splits)
  qed
qed

lemma read_config_returns:
  assumes "src = CONFIG \<or> src = DEFAULT"
    and "put_value tr = (\<lambda>v. Some (enc v))"
  shows "\<exists>st'. read_config src dst key tgt tset dflt tr opt st = Inr st'"
  using assms
  by (auto simp: read_config_def source_value_def ptree_put_def split: ParseType.splits option.splits)

lemma read_fields_returns:
  assumes src: "src = CONFIG \<or> src = DEFAULT"
  shows "\<exists>st'. read_fields src dst st = Inr st'"
proof -
  have s: "put_value StringTranslator = (\<lambda>v. Some (id v))"
    by (simp add: StringTranslator_def)
  have b: "put_value BoolTranslator = (\<lambda>v. Some ((\<lambda>b. if b then ''1'' else ''0'') v))"
    by (simp add: BoolTranslator_def)
  obtain st1 where 1: "read_config src dst ''game.path'' m_gamePath
      (\<lambda>v this. this\<lparr>m_gamePath := v\<rparr>) ''/opt/games/Grand Theft Auto 3''
      StringTranslator False st = Inr st1"
    using read_config_returns [OF src s] by blast
  obtain st2 where 2: "read_config src dst ''game.language'' m_gameLanguage
      (\<lambda>v this. this\<lparr>m_gameLanguage := v\<rparr>) ''american'' StringTranslator True st1 = Inr st2"
    using read_config_returns [OF src s] by blast
  obtain st3 where 3: "read_config src dst ''input.invert_y'' m_inputInvertY
      (\<lambda>v this. this\<lparr>m_inputInvertY := v\<rparr>) False BoolTranslator True st2 = Inr st3"
    using read_config_returns [OF src b] by blast
  show ?thesis
    unfolding read_fields_def by (simp add: 1 2 3)
qed

lemma parseConfig_returns:
  assumes src: "src = CONFIG \<or> src = DEFAULT"
  shows "\<exists>r c' fs'. parseConfig fs c src source dst dest = Returned r c' fs'"
proof -
  obtain st' where "read_fields src dst \<lparr>success = True, srcTree = empty_ptree, self = c\<rparr> = Inr st'"
    using read_fields_returns [OF src] by blast
  then show ?thesis
    using src
    by (auto simp: parseConfig_def read_source_def split: prod.splits option.splits)
qed

text \<open>
  C10. \<^verbatim>\<open>saveConfig()\<close> and \<^verbatim>\<open>getDefaultINIString()\<close> return with every field of the
  settings record as it was (\<^verbatim>\<open>m_gamePath\<close>, \<^verbatim>\<open>m_gameLanguage\<close>, \<^verbatim>\<open>m_inputInvertY\<close>,
  \<^verbatim>\<open>m_valid\<close> and the two names): a transfer whose destination is \<^verbatim>\<open>FILE\<close> or \<^verbatim>\<open>STRING\<close>
  never assigns to the record, whatever its source and however it ends.
\<close>

theorem save_and_default_leave_record:
  "(\<exists>b fs'. saveConfig fs c = Returned b c fs')
   \<and> (\<exists>txt fs'. getDefaultINIString fs c = Returned txt c fs')
   \<and> (dst = FILE \<or> dst = STRING \<longrightarrow> config (parseConfig fs c src source dst dest) = c)"
proof -
  obtain r1 c1 fs1 where 1: "parseConfig fs c CONFIG [] FILE (getConfigFile c) = Returned r1 c1 fs1"
    using parseConfig_returns [where src = CONFIG] by blast
  have "c1 = c"
    using parseConfig_frame [where dst = FILE and fs = fs and c = c and src = CONFIG
        and source = "[]" and dest = "getConfigFile c"] 1 by simp
  with 1 have a: "\<exists>b fs'. saveConfig fs c = Returned b c fs'"
    by (simp add: saveConfig_def)
  obtain r2 c2 fs2 where 2: "parseConfig fs c DEFAULT [] STRING [] = Returned r2 c2 fs2"
    using parseConfig_returns [where src = DEFAULT] by blast
  have "c2 = c"
    using parseConfig_frame [where dst = STRING and fs = fs and c = c and src = DEFAULT
        and source = "[]" and dest = "[]"] 2 by simp
  with 2 have b: "\<exists>txt fs'. getDefaultINIString fs c = Returned txt c fs'"
    by (simp add: getDefaultINIString_def)
  from a b parseConfig_frame show ?thesis
    by blast
qed

theorem save_and_default_leave_record_witness:
  "(\<exists>b fs'. saveConfig (single_file ''conf/openrw.ini'' []) (member_init ''openrw.ini'' ''conf'') =
       Returned b (member_init ''openrw.ini'' ''conf'') fs')
   \<and> (\<exists>txt fs'. getDefaultINIString (single_file ''conf/openrw.ini'' [])
         (member_init ''openrw.ini'' ''conf'') =
       Returned txt (member_init ''openrw.ini'' ''conf'') fs')
   \<and> config (parseConfig (single_file ''conf/openrw.ini'' []) (member_init ''openrw.ini'' ''conf'')
         FILE ''conf/openrw.ini'' STRING []) = member_init ''openrw.ini'' ''conf''"
  using save_and_default_leave_record [where dst = STRING and src = FILE
      and fs = "single_file ''conf/openrw.ini'' []" and c = "member_init ''openrw.ini'' ''conf''"
      and source = "''conf/openrw.ini''" and dest = "[]"]
  by simp

subsection \<open>Malformed INI text\<close>



text \<open>What the reader rejects, and the empty section it drops.\<close>

lemma malformed_texts:
  "read_ini (text_of_lines [''[game]'', ''[game]'']) = Inr (Ptree [] [])"
  "read_ini (text_of_lines [''[game]'', ''a=1'', ''[game]'']) = Inl Duplicate_section_name"
  "read_ini (text_of_lines [''[game'']) = Inl Unmatched_bracket"
  "read_ini (text_of_lines [''path'']) = Inl Equals_not_found"
  "read_ini (text_of_lines [''=path'']) = Inl Key_expected"
  by (simp_all add: ini_eval)

text \<open>
  A key line that the reader has just accepted is rejected when it comes again: every
  text with a key written twice in a row is malformed.
\<close>

lemma repeated_key_line:
  assumes "read_ini_line l st = Inr st'"
    and "st' \<noteq> st"
    and "hd (trim l) \<noteq> CHR ''[''"
  shows "read_ini_line l st' = Inl Duplicate_key_name"
  using assms
  by (cases st; cases st')
    (auto simp: read_ini_line_def Let_def map_of_snoc
      split: if_splits option.splits prod.splits)

lemma read_ini_lines_append:
  "read_ini_lines (xs @ ys) st =
    (case read_ini_lines xs st of Inl e \<Rightarrow> Inl e | Inr st' \<Rightarrow> read_ini_lines ys st')"
  by (induction xs arbitrary: st) (auto split: sum.splits)

lemma split_on_line:
  "c \<notin> set l \<Longrightarrow> split_on c (l @ c # rest) = l # split_on c rest"
  by (induction l) (auto split: list.splits)

lemma split_on_text_of_lines:
  "(\<And>l. l \<in> set ls \<Longrightarrow> nl \<notin> set l) \<Longrightarrow> split_on nl (text_of_lines ls) = ls @ [[]]"
proof (induction ls)
  case Nil
  then show ?case by (simp add: text_of_lines_def)
next
  case (Cons l ls)
  then have "split_on nl (text_of_lines ls) = ls @ [[]]" and "nl \<notin> set l"
    by simp_all
  then show ?case
    using split_on_line [of nl l "text_of_lines ls"] by (simp add: text_of_lines_def)
qed

lemma duplicate_key_text_rejected:
  assumes lines: "\<And>x. x \<in> set (pre @ l # post) \<Longrightarrow> nl \<notin> set x"
    and pre: "read_ini_lines pre ([], None) = Inr st"
    and first: "read_ini_line l st = Inr st'"
    and key: "st' \<noteq> st" "hd (trim l) \<noteq> CHR ''[''"
  shows "read_ini (text_of_lines (pre @ [l, l] @ post)) = Inl Duplicate_key_name"
proof -
  have "split_on nl (text_of_lines (pre @ [l, l] @ post)) = (pre @ [l, l] @ post) @ [[]]"
    using lines by (intro split_on_text_of_lines) auto
  moreover have "read_ini_lines ((pre @ [l, l] @ post) @ [[]]) ([], None) = Inl Duplicate_key_name"
    using pre first repeated_key_line [OF first key]
    by (simp add: read_ini_lines_append)
  ultimately show ?thesis
    by (simp add: read_ini_def)
qed

subsection \<open>The boolean codec\<close>

lemma bool_tokens:
  "get_value BoolTranslator ''1'' = Inr (Some True)"
  "get_value BoolTranslator ''2'' = Inr (Some True)"
  "get_value BoolTranslator ''-1'' = Inr (Some True)"
  "get_value BoolTranslator ''0'' = Inr (Some False)"
  "get_value BoolTranslator ''yes'' = Inr None"
  by (simp_all add: bool_get_value codec_eval)

lemma bool_load:
  assumes src: "src = FILE \<or> src = STRING"
    and rs: "read_source fs src source = Inr t"
  shows "walk_path t (fragments ''input.invert_y'') = Some n
      \<Longrightarrow> get_value BoolTranslator (data n) = Inr (Some b)
      \<Longrightarrow> \<exists>c'. parseConfig fs c src source CONFIG dest =
            Returned (walk_path t (fragments ''game.path'') \<noteq> None, dest) c' fs
          \<and> m_inputInvertY c' = b"
    and "walk_path t (fragments ''input.invert_y'') = Some n
      \<Longrightarrow> get_value BoolTranslator (data n) = Inr None
      \<Longrightarrow> \<exists>c'. parseConfig fs c src source CONFIG dest = Returned (False, dest) c' fs
          \<and> m_inputInvertY c' = m_inputInvertY c"
    and "walk_path t (fragments ''input.invert_y'') = None
      \<Longrightarrow> \<exists>c'. parseConfig fs c src source CONFIG dest =
            Returned (walk_path t (fragments ''game.path'') \<noteq> None, dest) c' fs
          \<and> m_inputInvertY c' = False"
  unfolding load_closed_form [OF src rs] fragments_keys bool_get_value
  by (auto simp del: walk_path.simps split: option.splits stoi_result.splits)

text \<open>
  C4. The boolean codec during a load. The tokens \<^verbatim>\<open>1\<close>, \<^verbatim>\<open>2\<close> and \<^verbatim>\<open>-1\<close> decode to true
  and \<^verbatim>\<open>0\<close> to false (an integer token decodes to whether it is not zero); \<^verbatim>\<open>yes\<close> does
  not decode. A load whose \<^verbatim>\<open>input.invert_y\<close> decodes writes the decoded value and does
  not fail on its account; a load whose \<^verbatim>\<open>input.invert_y\<close> does not decode returns false;
  a load without the key writes the default false and does not fail on its account. On
  writing the codec gives \<^verbatim>\<open>1\<close> for true and \<^verbatim>\<open>0\<close> for false.
\<close>

theorem bool_codec:
  assumes src: "src = FILE \<or> src = STRING"
    and rs: "read_source fs src source = Inr t"
  shows "get_value BoolTranslator ''1'' = Inr (Some True)
    \<and> get_value BoolTranslator ''2'' = Inr (Some True)
    \<and> get_value BoolTranslator ''-1'' = Inr (Some True)
    \<and> get_value BoolTranslator ''0'' = Inr (Some False)
    \<and> get_value BoolTranslator ''yes'' = Inr None
    \<and> put_value BoolTranslator True = Some ''1''
    \<and> put_value BoolTranslator False = Some ''0''
    \<and> (stoi (stripComments s) = Stoi_value v
        \<longrightarrow> get_value BoolTranslator s = Inr (Some (v \<noteq> 0)))
    \<and> (walk_path t (fragments ''input.invert_y'') = Some n
        \<and> get_value BoolTranslator (data n) = Inr (Some b)
        \<longrightarrow> (\<exists>c'. parseConfig fs c src source CONFIG dest =
              Returned (walk_path t (fragments ''game.path'') \<noteq> None, dest) c' fs
            \<and> m_inputInvertY c' = b))
    \<and> (walk_path t (fragments ''input.invert_y'') = Some n
        \<and> get_value BoolTranslator (data n) = Inr None
        \<longrightarrow> (\<exists>c'. parseConfig fs c src source CONFIG dest = Returned (False, dest) c' fs
            \<and> m_inputInvertY c' = m_inputInvertY c))
    \<and> (walk_path t (fragments ''input.invert_y'') = None
        \<longrightarrow> (\<exists>c'. parseConfig fs c src source CONFIG dest =
              Returned (walk_path t (fragments ''game.path'') \<noteq> None, dest) c' fs
            \<and> m_inputInvertY c' = False))"
proof -
  have put: "put_value BoolTranslator True = Some ''1''" "put_value BoolTranslator False = Some ''0''"
    by (simp_all add: BoolTranslator_def)
  have nz: "stoi (stripComments s) = Stoi_value v
      \<longrightarrow> get_value BoolTranslator s = Inr (Some (v \<noteq> 0))"
    by (simp add: bool_get_value)
  show ?thesis
    by (intro conjI impI bool_tokens put nz; (elim conjE)?;
        rule bool_load [OF src rs]; assumption)
qed

lemma invert_y_trees:
  "read_ini (text_of_lines [''[game]'', ''path=/data/games/gta3'', ''[input]'', ''invert_y=yes'']) =
    Inr (Ptree [] [(''game'', Ptree [] [(''path'', Ptree ''/data/games/gta3'' [])]),
                   (''input'', Ptree [] [(''invert_y'', Ptree ''yes'' [])])])"
  "read_ini (text_of_lines [''[game]'', ''path=/data/games/gta3'', ''[input]'', ''invert_y=2'']) =
    Inr (Ptree [] [(''game'', Ptree [] [(''path'', Ptree ''/data/games/gta3'' [])]),
                   (''input'', Ptree [] [(''invert_y'', Ptree ''2'' [])])])"
  by (simp_all add: ini_eval)

theorem bool_codec_witness:
  "(\<exists>c'. parseConfig
        (single_file ''conf/openrw.ini''
           (text_of_lines [''[game]'', ''path=/data/games/gta3'', ''[input]'', ''invert_y=yes'']))
        (member_init ''openrw.ini'' ''conf'') FILE ''conf/openrw.ini'' CONFIG [] =
      Returned (False, []) c'
        (single_file ''conf/openrw.ini''
           (text_of_lines [''[game]'', ''path=/data/games/gta3'', ''[input]'', ''invert_y=yes'']))
      \<and> m_inputInvertY c' = False)
   \<and> (\<exists>c'. parseConfig
        (single_file ''conf/openrw.ini''
           (text_of_lines [''[game]'', ''path=/data/games/gta3'', ''[input]'', ''invert_y=2'']))
        (member_init ''openrw.ini'' ''conf'') FILE ''conf/openrw.ini'' CONFIG [] =
      Returned (True, []) c'
        (single_file ''conf/openrw.ini''
           (text_of_lines [''[game]'', ''path=/data/games/gta3'', ''[input]'', ''invert_y=2'']))
      \<and> m_inputInvertY c' = True)
   \<and> (\<exists>c'. parseConfig
        (single_file ''conf/openrw.ini'' (text_of_lines [''[game]'', ''path=/data/games/gta3'']))
        (member_init ''openrw.ini'' ''conf'') FILE ''conf/openrw.ini'' CONFIG [] =
      Returned (True, []) c'
        (single_file ''conf/openrw.ini'' (text_of_lines [''[game]'', ''path=/data/games/gta3'']))
      \<and> m_inputInvertY c' = False)"
proof -
  let ?c = "member_init ''openrw.ini'' ''conf''"
  have src: "FILE = FILE \<or> FILE = STRING" by simp
  let ?game = "(''game'', Ptree [] [(''path'', Ptree ''/data/games/gta3'' [])])"
  let ?ty = "Ptree [] [?game, (''input'', Ptree [] [(''invert_y'', Ptree ''yes'' [])])]"
  let ?t2 = "Ptree [] [?game, (''input'', Ptree [] [(''invert_y'', Ptree ''2'' [])])]"
  let ?t0 = "Ptree [] [?game]"
  let ?fy = "single_file ''conf/openrw.ini''
      (text_of_lines [''[game]'', ''path=/data/games/gta3'', ''[input]'', ''invert_y=yes''])"
  let ?f2 = "single_file ''conf/openrw.ini''
      (text_of_lines [''[game]'', ''path=/data/games/gta3'', ''[input]'', ''invert_y=2''])"
  let ?f0 = "single_file ''conf/openrw.ini''
      (text_of_lines [''[game]'', ''path=/data/games/gta3''])"
  have ry: "read_source ?fy FILE ''conf/openrw.ini'' = Inr ?ty"
    by (simp only: read_source_single_file invert_y_trees)
  have r2: "read_source ?f2 FILE ''conf/openrw.ini'' = Inr ?t2"
    by (simp only: read_source_single_file invert_y_trees)
  have r0: "read_source ?f0 FILE ''conf/openrw.ini'' = Inr ?t0"
    by (simp only: read_source_single_file gta3_tree)
  have a: "\<exists>c'. parseConfig ?fy ?c FILE ''conf/openrw.ini'' CONFIG [] = Returned (False, []) c' ?fy
      \<and> m_inputInvertY c' = False"
    using bool_codec [OF src ry, where n = "Ptree ''yes'' []" and c = ?c and dest = "[]"]
    by (simp add: fragments_keys member_init_def)
  have b: "\<exists>c'. parseConfig ?f2 ?c FILE ''conf/openrw.ini'' CONFIG [] = Returned (True, []) c' ?f2
      \<and> m_inputInvertY c' = True"
    using bool_codec [OF src r2, where n = "Ptree ''2'' []" and c = ?c and dest = "[]"
        and b = True]
    by (simp add: fragments_keys)
  have c: "\<exists>c'. parseConfig ?f0 ?c FILE ''conf/openrw.ini'' CONFIG [] = Returned (True, []) c' ?f0
      \<and> m_inputInvertY c' = False"
    using bool_codec [OF src r0, where c = ?c and dest = "[]"]
    by (simp add: fragments_keys)
  show ?thesis
    by (intro conjI a b c)
qed

subsection \<open>Text that does not decode\<close>

lemma read_config_undecodable:
  assumes "src = FILE \<or> src = STRING"
    and "walk_path (srcTree st) (fragments key) = Some n"
    and "get_value translator (data n) = Inr None"
  shows "read_config src dst key target target_set dflt translator optional st =
    Inr (st\<lparr>success := False\<rparr>)"
  using assms by (auto simp: read_config_def source_value_def ptree_get_def)

lemma read_config_absent_optional:
  assumes "src = FILE \<or> src = STRING"
    and "walk_path (srcTree st) (fragments key) = None"
  shows "read_config src CONFIG key target target_set dflt translator True st =
    (case ptree_put (srcTree st) key dflt translator of
       Inl e \<Rightarrow> Inl e
     | Inr tree \<Rightarrow> Inr (st\<lparr>srcTree := tree, self := target_set dflt (self st)\<rparr>))"
  using assms
  by (auto simp: read_config_def source_value_def ptree_get_def split: sum.splits)

text \<open>
  C5 (amended). Text that a codec declines is not treated as an absent key:
  \<^verbatim>\<open>read_config\<close> sets \<^verbatim>\<open>success\<close> to false and returns without touching the tree or the
  record, whether the field is optional or required, and a load whose
  \<^verbatim>\<open>input.invert_y\<close> does not decode returns false. Only an absent optional key falls
  back to the default.
\<close>

theorem undecodable_value_fails:
  "((src = FILE \<or> src = STRING)
      \<and> walk_path (srcTree st) (fragments key) = Some n
      \<and> get_value translator (data n) = Inr None
    \<longrightarrow> read_config src dst key target target_set dflt translator optional st =
          Inr (st\<lparr>success := False\<rparr>))
   \<and> ((src = FILE \<or> src = STRING)
      \<and> walk_path (srcTree st) (fragments key) = None
    \<longrightarrow> read_config src CONFIG key target target_set dflt translator True st =
          (case ptree_put (srcTree st) key dflt translator of
             Inl e \<Rightarrow> Inl e
           | Inr tree \<Rightarrow> Inr (st\<lparr>srcTree := tree, self := target_set dflt (self st)\<rparr>)))
   \<and> ((src = FILE \<or> src = STRING)
      \<and> read_source fs src source = Inr t
      \<and> walk_path t (fragments ''input.invert_y'') = Some m
      \<and> get_value BoolTranslator (data m) = Inr None
    \<longrightarrow> (\<exists>c'. parseConfig fs c src source CONFIG dest = Returned (False, dest) c' fs))"
proof (intro conjI impI; elim conjE)
  show "read_config src dst key target target_set dflt translator optional st =
      Inr (st\<lparr>success := False\<rparr>)"
    if "src = FILE \<or> src = STRING" "walk_path (srcTree st) (fragments key) = Some n"
      "get_value translator (data n) = Inr None"
    using that by (rule read_config_undecodable)
  show "read_config src CONFIG key target target_set dflt translator True st =
      (case ptree_put (srcTree st) key dflt translator of
         Inl e \<Rightarrow> Inl e
       | Inr tree \<Rightarrow> Inr (st\<lparr>srcTree := tree, self := target_set dflt (self st)\<rparr>))"
    if "src = FILE \<or> src = STRING" "walk_path (srcTree st) (fragments key) = None"
    using that by (rule read_config_absent_optional)
  show "\<exists>c'. parseConfig fs c src source CONFIG dest = Returned (False, dest) c' fs"
    if "src = FILE \<or> src = STRING" "read_source fs src source = Inr t"
      "walk_path t (fragments ''input.invert_y'') = Some m"
      "get_value BoolTranslator (data m) = Inr None"
    using bool_load(2) [OF that, of c dest] by (elim exE conjE) (rule exI)
qed

theorem undecodable_value_fails_witness:
  "read_config FILE CONFIG ''input.invert_y'' m_inputInvertY
     (\<lambda>v this. this\<lparr>m_inputInvertY := v\<rparr>) False BoolTranslator True
     \<lparr>success = True,
      srcTree = Ptree [] [(''input'', Ptree [] [(''invert_y'', Ptree ''yes'' [])])],
      self = member_init ''openrw.ini'' ''conf''\<rparr> =
   Inr \<lparr>success = False,
        srcTree = Ptree [] [(''input'', Ptree [] [(''invert_y'', Ptree ''yes'' [])])],
        self = member_init ''openrw.ini'' ''conf''\<rparr>
   \<and> read_config FILE CONFIG ''input.invert_y'' m_inputInvertY
     (\<lambda>v this. this\<lparr>m_inputInvertY := v\<rparr>) True BoolTranslator True
     \<lparr>success = True, srcTree = Ptree [] [],
      self = member_init ''openrw.ini'' ''conf''\<rparr> =
   Inr \<lparr>success = True,
        srcTree = Ptree [] [(''input'', Ptree [] [(''invert_y'', Ptree ''1'' [])])],
        self = (member_init ''openrw.ini'' ''conf'')\<lparr>m_inputInvertY := True\<rparr>\<rparr>
   \<and> (\<exists>c'. parseConfig
        (single_file ''conf/openrw.ini''
           (text_of_lines [''[game]'', ''path=/data/games/gta3'', ''[input]'', ''invert_y=yes'']))
        (member_init ''openrw.ini'' ''conf'') STRING ''conf/openrw.ini'' CONFIG [] =
      Returned (False, []) c'
        (single_file ''conf/openrw.ini''
           (text_of_lines [''[game]'', ''path=/data/games/gta3'', ''[input]'', ''invert_y=yes''])))"
proof -
  let ?c = "member_init ''openrw.ini'' ''conf''"
  let ?ti = "Ptree [] [(''input'', Ptree [] [(''invert_y'', Ptree ''yes'' [])])]"
  let ?ty = "Ptree [] [(''game'', Ptree [] [(''path'', Ptree ''/data/games/gta3'' [])]),
      (''input'', Ptree [] [(''invert_y'', Ptree ''yes'' [])])]"
  let ?fy = "single_file ''conf/openrw.ini''
      (text_of_lines [''[game]'', ''path=/data/games/gta3'', ''[input]'', ''invert_y=yes''])"
  have ry: "read_source ?fy STRING ''conf/openrw.ini'' = Inr ?ty"
    by (simp only: read_source_single_file invert_y_trees)
  have a: "read_config FILE CONFIG ''input.invert_y'' m_inputInvertY
      (\<lambda>v this. this\<lparr>m_inputInvertY := v\<rparr>) False BoolTranslator True
      \<lparr>success = True, srcTree = ?ti, self = ?c\<rparr> =
    Inr \<lparr>success = False, srcTree = ?ti, self = ?c\<rparr>"
    using undecodable_value_fails [THEN conjunct1, rule_format,
        where src = FILE and st = "\<lparr>success = True, srcTree = ?ti, self = ?c\<rparr>"
        and key = "''input.invert_y''" and n = "Ptree ''yes'' []" and translator = BoolTranslator
        and dst = CONFIG and target = m_inputInvertY
        and target_set = "\<lambda>v this. this\<lparr>m_inputInvertY := v\<rparr>" and dflt = False
        and optional = True]
    by (simp add: fragments_keys bool_tokens)
  have b: "read_config FILE CONFIG ''input.invert_y'' m_inputInvertY
      (\<lambda>v this. this\<lparr>m_inputInvertY := v\<rparr>) True BoolTranslator True
      \<lparr>success = True, srcTree = Ptree [] [], self = ?c\<rparr> =
    Inr \<lparr>success = True,
         srcTree = Ptree [] [(''input'', Ptree [] [(''invert_y'', Ptree ''1'' [])])],
         self = ?c\<lparr>m_inputInvertY := True\<rparr>\<rparr>"
    using undecodable_value_fails [THEN conjunct2, THEN conjunct1, rule_format,
        where src = FILE and st = "\<lparr>success = True, srcTree = Ptree [] [], self = ?c\<rparr>"
        and key = "''input.invert_y''" and translator = BoolTranslator
        and target = m_inputInvertY
        and target_set = "\<lambda>v this. this\<lparr>m_inputInvertY := v\<rparr>" and dflt = True]
    by (simp add: fragments_keys ptree_put_def BoolTranslator_def)
  have c: "\<exists>c'. parseConfig ?fy ?c STRING ''conf/openrw.ini'' CONFIG [] =
      Returned (False, []) c' ?fy"
    using undecodable_value_fails [THEN conjunct2, THEN conjunct2, rule_format,
        where src = STRING and fs = ?fy and source = "''conf/openrw.ini''" and t = ?ty
        and m = "Ptree ''yes'' []" and c = ?c and dest = "[]"] ry
    by (simp add: fragments_keys bool_tokens)
  show ?thesis
    by (intro conjI a b c)
qed

text \<open>
  Without the amendment C5 fails: undecodable text in the optional \<^verbatim>\<open>input.invert_y\<close> makes
  the load return false, and the same file without that line loads.
\<close>

theorem undecodable_optional_counterexample:
  "get_value BoolTranslator ''yes'' = Inr None
   \<and> parseConfig
       (single_file ''conf/openrw.ini''
          (text_of_lines [''[game]'', ''path=/data/games/gta3'', ''[input]'', ''invert_y=yes'']))
       (member_init ''openrw.ini'' ''conf'') FILE ''conf/openrw.ini'' CONFIG [] =
     Returned (False, [])
       ((member_init ''openrw.ini'' ''conf'')
          \<lparr>m_gamePath := ''/data/games/gta3'', m_gameLanguage := ''american''\<rparr>)
       (single_file ''conf/openrw.ini''
          (text_of_lines [''[game]'', ''path=/data/games/gta3'', ''[input]'', ''invert_y=yes'']))
   \<and> parseConfig
       (single_file ''conf/openrw.ini'' (text_of_lines [''[game]'', ''path=/data/games/gta3'']))
       (member_init ''openrw.ini'' ''conf'') FILE ''conf/openrw.ini'' CONFIG [] =
     Returned (True, [])
       ((member_init ''openrw.ini'' ''conf'')
          \<lparr>m_gamePath := ''/data/games/gta3'', m_gameLanguage := ''american'',
           m_inputInvertY := False\<rparr>)
       (single_file ''conf/openrw.ini'' (text_of_lines [''[game]'', ''path=/data/games/gta3'']))"
proof -
  have src: "FILE = FILE \<or> FILE = STRING" by simp
  have ry: "read_source
      (single_file ''conf/openrw.ini''
         (text_of_lines [''[game]'', ''path=/data/games/gta3'', ''[input]'', ''invert_y=yes'']))
      FILE ''conf/openrw.ini'' =
    Inr (Ptree [] [(''game'', Ptree [] [(''path'', Ptree ''/data/games/gta3'' [])]),
                   (''input'', Ptree [] [(''invert_y'', Ptree ''yes'' [])])])"
    by (simp only: read_source_single_file invert_y_trees)
  have fl: "contents
      (single_file ''conf/openrw.ini'' (text_of_lines [''[game]'', ''path=/data/games/gta3'']))
      ''conf/openrw.ini'' = Some (text_of_lines [''[game]'', ''path=/data/games/gta3''])"
    by (simp add: single_file_def)
  show ?thesis
    unfolding load_closed_form [OF src ry] gta3_load [OF src fl]
    by (simp add: bool_tokens codec_eval)
qed

subsection \<open>A source without game.path\<close>

text \<open>
  Where the third call does not end by an exception, a source without \<^verbatim>\<open>game.path\<close> makes
  the load return false.
\<close>

lemma missing_path_returns_false:
  assumes src: "src = FILE \<or> src = STRING"
    and rs: "read_source fs src source = Inr t"
    and absent: "walk_path t (fragments ''game.path'') = None"
    and fits: "ptree_get t ''input.invert_y'' BoolTranslator \<noteq> Inl Std_out_of_range"
  shows "\<exists>c'. parseConfig fs c src source CONFIG dest = Returned (False, dest) c' fs"
  using absent fits
  unfolding load_closed_form [OF src rs] ptree_get_bool fragments_keys
  by (auto simp del: walk_path.simps split: option.splits stoi_result.splits)

lemma overflow_no_path_tree:
  "read_ini (text_of_lines [''[input]'', ''invert_y=3000000000'']) =
    Inr (Ptree [] [(''input'', Ptree [] [(''invert_y'', Ptree ''3000000000'' [])])])"
  by (simp add: ini_eval)

text \<open>
  C1. For every source in which the key \<^verbatim>\<open>game.path\<close> is absent, a load into the record
  is to return false, and \<^verbatim>\<open>isValid()\<close> is to be false on the record constructed from it.
  The code does not do so on the file below, which has no \<^verbatim>\<open>game.path\<close> and holds
  \<^verbatim>\<open>invert_y=3000000000\<close>: the first call of \<^verbatim>\<open>read_config\<close> records the failure, the
  second writes the default language, and the third ends by \<^verbatim>\<open>std::out_of_range\<close>, which
  nothing catches. Neither \<^verbatim>\<open>parseConfig\<close> nor the constructor returns a value.
\<close>

theorem missing_game_path_out_of_range:
  "read_source
     (single_file ''conf/openrw.ini'' (text_of_lines [''[input]'', ''invert_y=3000000000'']))
     FILE ''conf/openrw.ini'' =
     Inr (Ptree [] [(''input'', Ptree [] [(''invert_y'', Ptree ''3000000000'' [])])])
   \<and> walk_path (Ptree [] [(''input'', Ptree [] [(''invert_y'', Ptree ''3000000000'' [])])])
       (fragments ''game.path'') = None
   \<and> parseConfig
       (single_file ''conf/openrw.ini'' (text_of_lines [''[input]'', ''invert_y=3000000000'']))
       (member_init ''openrw.ini'' ''conf'') FILE ''conf/openrw.ini'' CONFIG [] =
     Raised Std_out_of_range
       ((member_init ''openrw.ini'' ''conf'')\<lparr>m_gameLanguage := ''american''\<rparr>)
   \<and> GameConfig_new
       (single_file ''conf/openrw.ini'' (text_of_lines [''[input]'', ''invert_y=3000000000'']))
       Unix_like (\<lambda>v. None) ''openrw.ini'' ''conf'' = Inl Std_out_of_range"
proof -
  let ?fs = "single_file ''conf/openrw.ini'' (text_of_lines [''[input]'', ''invert_y=3000000000''])"
  let ?t = "Ptree [] [(''input'', Ptree [] [(''invert_y'', Ptree ''3000000000'' [])])]"
  have src: "FILE = FILE \<or> FILE = STRING" by simp
  have rs: "read_source ?fs FILE ''conf/openrw.ini'' = Inr ?t"
    by (simp only: read_source_single_file overflow_no_path_tree)
  have st: "stoi (stripComments ''3000000000'') = Out_of_range"
    by (simp add: codec_eval)
  have pc: "parseConfig ?fs (member_init ''openrw.ini'' ''conf'') FILE ''conf/openrw.ini'' CONFIG [] =
      Raised Std_out_of_range
        ((member_init ''openrw.ini'' ''conf'')\<lparr>m_gameLanguage := ''american''\<rparr>)"
    unfolding load_closed_form [OF src rs] by (simp add: st)
  have "GameConfig_new ?fs Unix_like (\<lambda>v. None) ''openrw.ini'' ''conf'' = Inl Std_out_of_range"
    unfolding GameConfig_new_unfold using pc by simp
  with rs pc show ?thesis
    by (simp add: fragments_keys)
qed

subsection \<open>No rollback\<close>

lemma source_value_string_load:
  assumes "src = FILE \<or> src = STRING"
  shows "source_value src t key target dflt StringTranslator True =
    Inr (Some (case walk_path t (fragments key) of
                 None \<Rightarrow> dflt
               | Some n \<Rightarrow> stripComments (data n)))"
  using assms
  by (auto simp: source_value_def ptree_get_string split: option.splits)

lemma source_value_bool_load:
  assumes "src = FILE \<or> src = STRING"
  shows "source_value src t ''input.invert_y'' target dflt BoolTranslator True =
    (case walk_path t [''input'', ''invert_y''] of
       None \<Rightarrow> Inr (Some dflt)
     | Some n \<Rightarrow>
         (case stoi (stripComments (data n)) of
            Stoi_value v \<Rightarrow> Inr (Some (v \<noteq> 0))
          | Invalid_argument \<Rightarrow> Inr None
          | Out_of_range \<Rightarrow> Inl Std_out_of_range))"
  using assms
  by (auto simp: source_value_def ptree_get_bool simp del: walk_path.simps
      split: option.splits stoi_result.splits)

text \<open>
  Where the remaining fields resolve without an exception (\<^verbatim>\<open>game.language\<close> to \<open>l\<close>,
  \<^verbatim>\<open>input.invert_y\<close> to a value, or to none when its text does not decode), a load from a
  source without \<^verbatim>\<open>game.path\<close> returns false with \<open>l\<close> written to \<^verbatim>\<open>m_gameLanguage\<close> and
  the resolved value of \<^verbatim>\<open>input.invert_y\<close>, if any, written to \<^verbatim>\<open>m_inputInvertY\<close>.
\<close>

lemma remaining_fields_written:
  assumes src: "src = FILE \<or> src = STRING"
    and rs: "read_source fs src source = Inr t"
    and absent: "walk_path t (fragments ''game.path'') = None"
    and lang: "source_value src t ''game.language'' (m_gameLanguage c) ''american''
        StringTranslator True = Inr (Some l)"
    and inv: "source_value src t ''input.invert_y'' (m_inputInvertY c) False
        BoolTranslator True = Inr r"
  shows "parseConfig fs c src source CONFIG dest =
    Returned (False, dest)
      (case r of
         Some b \<Rightarrow> c\<lparr>m_gameLanguage := l, m_inputInvertY := b\<rparr>
       | None \<Rightarrow> c\<lparr>m_gameLanguage := l\<rparr>) fs"
  using absent lang inv
  unfolding load_closed_form [OF src rs] source_value_string_load [OF src]
    source_value_bool_load [OF src] fragments_keys
  by (auto simp del: walk_path.simps split: option.splits stoi_result.splits)

lemma french_trees:
  "read_ini (text_of_lines [''[game]'', ''language=french'', ''[input]'', ''invert_y=1'']) =
    Inr (Ptree [] [(''game'', Ptree [] [(''language'', Ptree ''french'' [])]),
                   (''input'', Ptree [] [(''invert_y'', Ptree ''1'' [])])])"
  "read_ini (text_of_lines [''[game]'', ''language=french'', ''[input]'',
      ''invert_y=-3000000000'']) =
    Inr (Ptree [] [(''game'', Ptree [] [(''language'', Ptree ''french'' [])]),
                   (''input'', Ptree [] [(''invert_y'', Ptree ''-3000000000'' [])])])"
  by (simp_all add: ini_eval)

text \<open>
  C8. When \<^verbatim>\<open>game.path\<close> is absent from a \<^verbatim>\<open>FILE\<close> or \<^verbatim>\<open>STRING\<close> source and the
  destination is the record, the operation is to return false after processing every
  remaining field descriptor, with the resolved values of the remaining fields written
  and nothing rolled back. The code does not do so on the file below, which has no
  \<^verbatim>\<open>game.path\<close> and holds \<^verbatim>\<open>language=french\<close> and \<^verbatim>\<open>invert_y=-3000000000\<close>: the language
  is written, and the third call then ends by \<^verbatim>\<open>std::out_of_range\<close>, which nothing
  catches, so false is not returned.
\<close>

theorem missing_path_language_then_out_of_range:
  "walk_path
     (Ptree [] [(''game'', Ptree [] [(''language'', Ptree ''french'' [])]),
                (''input'', Ptree [] [(''invert_y'', Ptree ''-3000000000'' [])])])
     (fragments ''game.path'') = None
   \<and> read_source
       (single_file ''conf/openrw.ini''
          (text_of_lines [''[game]'', ''language=french'', ''[input]'', ''invert_y=-3000000000'']))
       STRING ''conf/openrw.ini'' =
     Inr (Ptree [] [(''game'', Ptree [] [(''language'', Ptree ''french'' [])]),
                    (''input'', Ptree [] [(''invert_y'', Ptree ''-3000000000'' [])])])
   \<and> parseConfig
       (single_file ''conf/openrw.ini''
          (text_of_lines [''[game]'', ''language=french'', ''[input]'', ''invert_y=-3000000000'']))
       (member_init ''openrw.ini'' ''conf'') STRING ''conf/openrw.ini'' CONFIG [] =
     Raised Std_out_of_range
       ((member_init ''openrw.ini'' ''conf'')\<lparr>m_gameLanguage := ''french''\<rparr>)"
proof -
  let ?fs = "single_file ''conf/openrw.ini''
      (text_of_lines [''[game]'', ''language=french'', ''[input]'', ''invert_y=-3000000000''])"
  let ?t = "Ptree [] [(''game'', Ptree [] [(''language'', Ptree ''french'' [])]),
      (''input'', Ptree [] [(''invert_y'', Ptree ''-3000000000'' [])])]"
  have src: "STRING = FILE \<or> STRING = STRING" by simp
  have rs: "read_source ?fs STRING ''conf/openrw.ini'' = Inr ?t"
    by (simp only: read_source_single_file french_trees)
  have st: "stoi (stripComments ''-3000000000'') = Out_of_range"
    by (simp add: codec_eval)
  have sl: "stripComments ''french'' = ''french''"
    by (simp add: codec_eval)
  have pc: "parseConfig ?fs (member_init ''openrw.ini'' ''conf'') STRING ''conf/openrw.ini''
      CONFIG [] =
      Raised Std_out_of_range
        ((member_init ''openrw.ini'' ''conf'')\<lparr>m_gameLanguage := ''french''\<rparr>)"
    unfolding load_closed_form [OF src rs] by (simp add: st sl)
  with rs show ?thesis
    by (simp add: fragments_keys)
qed

subsection \<open>The two kinds of source\<close>

text \<open>
  Both kinds of source read the file that \<open>source\<close> names. A \<^verbatim>\<open>STRING\<close> source that names
  no readable file fails, also when the string itself is INI text; a \<^verbatim>\<open>FILE\<close> source that
  names no readable file is read as the empty tree.
\<close>

lemma string_source_names_a_file:
  "contents fs source = None \<Longrightarrow>
    parseConfig fs c STRING source dst dest = Returned (False, dest) c fs"
  by (simp add: parseConfig_def read_source_def read_ini_file_def)

lemma file_source_missing:
  "contents fs source = None \<Longrightarrow> read_source fs FILE source = Inr empty_ptree"
  by (simp add: read_source_def read_ini_ifstream_def)

lemma ini_text_as_string_source:
  "parseConfig
     (single_file ''conf/openrw.ini'' (text_of_lines [''[game]'', ''path=/data/games/gta3'']))
     c STRING (text_of_lines [''[game]'', ''path=/data/games/gta3'']) CONFIG dest =
   Returned (False, dest) c
     (single_file ''conf/openrw.ini'' (text_of_lines [''[game]'', ''path=/data/games/gta3'']))"
  by (rule string_source_names_a_file) (simp add: single_file_def text_of_lines_def)

text \<open>
  C2. After a load from a \<^verbatim>\<open>FILE\<close> or \<^verbatim>\<open>STRING\<close> source that returns true the fields are
  to hold what the source holds or their defaults, and a source that holds only
  \<^verbatim>\<open>[game]\<close> and \<^verbatim>\<open>path=/data/games/gta3\<close> is to load with success, with
  \<^verbatim>\<open>/data/games/gta3\<close>, \<^verbatim>\<open>american\<close> and false. The code does so when a file holds the text
  and the source names the file. It does not when a \<^verbatim>\<open>STRING\<close> source holds the text: the
  string goes to the reader's file-name overload, no file of that name can be opened, and
  the load returns false with the record as it was.
\<close>

theorem string_source_text_not_loaded:
  "contents
     (single_file ''conf/openrw.ini'' (text_of_lines [''[game]'', ''path=/data/games/gta3'']))
     (text_of_lines [''[game]'', ''path=/data/games/gta3'']) = None
   \<and> parseConfig
       (single_file ''conf/openrw.ini'' (text_of_lines [''[game]'', ''path=/data/games/gta3'']))
       (member_init ''openrw.ini'' ''conf'') STRING
       (text_of_lines [''[game]'', ''path=/data/games/gta3'']) CONFIG [] =
     Returned (False, []) (member_init ''openrw.ini'' ''conf'')
       (single_file ''conf/openrw.ini'' (text_of_lines [''[game]'', ''path=/data/games/gta3'']))
   \<and> parseConfig
       (single_file ''conf/openrw.ini'' (text_of_lines [''[game]'', ''path=/data/games/gta3'']))
       (member_init ''openrw.ini'' ''conf'') FILE ''conf/openrw.ini'' CONFIG [] =
     Returned (True, [])
       ((member_init ''openrw.ini'' ''conf'')
          \<lparr>m_gamePath := ''/data/games/gta3'', m_gameLanguage := ''american'',
           m_inputInvertY := False\<rparr>)
       (single_file ''conf/openrw.ini'' (text_of_lines [''[game]'', ''path=/data/games/gta3'']))"
proof -
  let ?text = "text_of_lines [''[game]'', ''path=/data/games/gta3'']"
  let ?fs = "single_file ''conf/openrw.ini'' ?text"
  have none: "contents ?fs ?text = None"
    by (simp add: single_file_def text_of_lines_def)
  have fl: "contents ?fs ''conf/openrw.ini'' = Some ?text"
    by (simp add: single_file_def)
  have src: "FILE = FILE \<or> FILE = STRING" by simp
  show ?thesis
    by (intro conjI none string_source_names_a_file [OF none] gta3_load [OF src fl])
qed

end
